theory Spec2Isabelle
  imports Complex_Main
begin

section \<open>Python values and errors\<close>

text \<open>
  The exceptions that the modelled methods of \<^verbatim>\<open>behavior_project_cache.py\<close> can raise.
  A method that raises returns \<open>Inl\<close> of the exception; a method that returns normally
  returns \<open>Inr\<close> of its value.
\<close>

datatype error =
    KeyError string
  | IndexError
  | TypeError
  | ValueError
  | AssertionError
  | FileNotFoundError string
  | OtherError string

text \<open>
  A float cell of a table is \<open>'a option\<close>: \<open>Some x\<close> is the number \<open>x\<close>, \<open>None\<close> is NaN
  (pandas also shows a Python \<^verbatim>\<open>None\<close> in a column as null, so \<open>None\<close> stands for every
  null). The numbers \<open>'a\<close> are any linearly ordered type with a subtraction; infinite
  timestamps are not modelled. Every comparison with NaN is false, and an arithmetic
  operation with a NaN operand is NaN.
\<close>

definition fge :: "'a::linorder option \<Rightarrow> 'a option \<Rightarrow> bool" where
  "fge a b = (case a of None \<Rightarrow> False
              | Some x \<Rightarrow> (case b of None \<Rightarrow> False | Some y \<Rightarrow> y \<le> x))"

definition fgt :: "'a::linorder option \<Rightarrow> 'a option \<Rightarrow> bool" where
  "fgt a b = (case a of None \<Rightarrow> False
              | Some x \<Rightarrow> (case b of None \<Rightarrow> False | Some y \<Rightarrow> y < x))"

definition fsub :: "'a::minus option \<Rightarrow> 'a option \<Rightarrow> 'a option" where
  "fsub a b = (case a of None \<Rightarrow> None
               | Some x \<Rightarrow> (case b of None \<Rightarrow> None | Some y \<Rightarrow> Some (x - y)))"

definition isnull :: "'a option \<Rightarrow> bool" where
  "isnull a = (a = None)"

section \<open>The trials and stimulus presentations tables\<close>

text \<open>
  A row of the stimulus presentations table of the NWB file. \<^verbatim>\<open>get_trials\<close> reads only
  the column \<^verbatim>\<open>start_time\<close>; the other columns are the extension of the record. The
  table is the list of its rows, in the order of the table.
\<close>

record 'a presentation =
  start_time :: "'a option"

text \<open>
  A row of the trials table, with the columns that \<^verbatim>\<open>get_trials\<close> keeps (lines 261-280).
  The columns of the NWB table that \<^verbatim>\<open>get_trials\<close> drops are the extension of the
  record. \<^verbatim>\<open>lick_times\<close> is a numpy array of floats.
\<close>

record 'a trial =
  initial_image_name :: string
  change_image_name :: string
  change_time :: "'a option"
  lick_times :: "'a option list"
  response_latency :: "'a option"
  reward_time :: "'a option"
  go :: bool
  catch :: bool
  hit :: bool
  miss :: bool
  false_alarm :: bool
  correct_reject :: bool
  aborted :: bool
  auto_rewarded :: bool
  reward_volume :: "'a option"
  start_time :: "'a option"
  stop_time :: "'a option"
  trial_length :: "'a option"

text \<open>A row of the table that \<^verbatim>\<open>get_trials\<close> returns: two more columns.\<close>

record ('a, 'r) returned_trial = "'a trial" +
  reward_rate :: 'r
  response_binary :: bool

subsection \<open>\<^verbatim>\<open>ExtendedNwbApi.get_trials\<close>\<close>

text \<open>
  Lines 227-232. \<^verbatim>\<open>query\<close> keeps the rows with \<^verbatim>\<open>start_time >= timestamp\<close> in the order
  of the table, and \<^verbatim>\<open>iloc[0]\<close> is the first of them.
\<close>

definition get_next_flash ::
  "('a::linorder, 'm) presentation_scheme list \<Rightarrow> 'a option \<Rightarrow> 'a option" where
  "get_next_flash stimulus_presentations timestamp =
     (let query = filter (\<lambda>p. fge (presentation.start_time p) timestamp) stimulus_presentations
      in if length query > 0 then presentation.start_time (query ! 0) else None)"

text \<open>
  Lines 244-248. \<^verbatim>\<open>row['lick_times'] > 0\<close> is the array of the comparisons, one for each
  lick time, so its \<^verbatim>\<open>len\<close> is the number of lick times; a number is true when it is
  not zero.
\<close>

definition recalculate_response_latency ::
  "('a::{linorder,minus,zero}, 'm) trial_scheme \<Rightarrow> 'a option" where
  "recalculate_response_latency row =
     (if length (map (\<lambda>l. fgt l (Some 0)) (lick_times row)) \<noteq> 0 \<and> \<not> isnull (change_time row)
      then fsub (lick_times row ! 0) (change_time row)
      else None)"

text \<open>Line 233: the change time of every trial is mapped through \<^verbatim>\<open>get_next_flash\<close>.\<close>

definition patch_change_time ::
  "('a::linorder, 'm) presentation_scheme list \<Rightarrow> ('a, 'n) trial_scheme list
     \<Rightarrow> ('a, 'n) trial_scheme list" where
  "patch_change_time stimulus_presentations trials =
     map (\<lambda>t. t\<lparr>change_time := get_next_flash stimulus_presentations (change_time t)\<rparr>) trials"

text \<open>
  Lines 240-241. \<^verbatim>\<open>iloc[-1]\<close> raises IndexError on a table with no rows. The mask is
  \<^verbatim>\<open>logical_not(stop_time > last)\<close>.
\<close>

definition drop_uncovered_trials ::
  "('a::linorder, 'm) presentation_scheme list \<Rightarrow> ('a, 'n) trial_scheme list
     \<Rightarrow> error + ('a, 'n) trial_scheme list" where
  "drop_uncovered_trials stimulus_presentations trials =
     (if stimulus_presentations = [] then Inl IndexError
      else
        let last_stimulus_presentation = presentation.start_time (last stimulus_presentations)
        in Inr (filter (\<lambda>t. \<not> fgt (stop_time t) last_stimulus_presentation) trials))"

text \<open>
  Lines 253-254: the assertion, on every trial whose change time is not null.
  \<^verbatim>\<open>x in values\<close> compares \<open>x\<close> with every element of the array.
\<close>

definition change_time_asserted ::
  "('a::linorder, 'm) presentation_scheme list \<Rightarrow> ('a, 'n) trial_scheme \<Rightarrow> bool" where
  "change_time_asserted stimulus_presentations t =
     (if isnull (change_time t) then True
      else list_ex (\<lambda>p. presentation.start_time p = change_time t) stimulus_presentations)"

text \<open>
  Lines 261-294 on one row: the eighteen columns that are kept, then \<^verbatim>\<open>reward_rate\<close>
  and \<^verbatim>\<open>response_binary\<close>.
\<close>

definition returned_row :: "('a, 'n) trial_scheme \<Rightarrow> 'r \<Rightarrow> ('a, 'r) returned_trial" where
  "returned_row t rate =
     \<lparr> initial_image_name = initial_image_name t,
       change_image_name = change_image_name t,
       change_time = change_time t,
       lick_times = lick_times t,
       response_latency = response_latency t,
       reward_time = reward_time t,
       go = go t,
       catch = catch t,
       hit = hit t,
       miss = miss t,
       false_alarm = false_alarm t,
       correct_reject = correct_reject t,
       aborted = aborted t,
       auto_rewarded = auto_rewarded t,
       reward_volume = reward_volume t,
       start_time = trial.start_time t,
       stop_time = stop_time t,
       trial_length = trial_length t,
       reward_rate = rate,
       response_binary = (hit t \<or> false_alarm t) \<rparr>"

text \<open>
  Lines 224-250, the block that the source marks between dashed lines as the patch for
  the timing issues: the change times, the trials after the last stimulus presentation,
  the response latencies. The row-wise \<^verbatim>\<open>apply\<close> of line 249 on a table with no rows is
  taken to give a column with no rows.
\<close>

definition timing_patch ::
  "('a::{linorder,minus,zero}, 'm) presentation_scheme list \<Rightarrow> ('a, 'n) trial_scheme list
     \<Rightarrow> error + ('a, 'n) trial_scheme list" where
  "timing_patch stimulus_presentations trials0 =
     (let trials1 = patch_change_time stimulus_presentations trials0
      in case drop_uncovered_trials stimulus_presentations trials1 of
           Inl e \<Rightarrow> Inl e
         | Inr trials2 \<Rightarrow>
             Inr (map (\<lambda>row. row\<lparr>response_latency := recalculate_response_latency row\<rparr>)
                      trials2))"

text \<open>
  Lines 257-294: the aborted trials, the columns, the reward rate and the binary
  response. The function \<^verbatim>\<open>calculate_reward_rate\<close> of \<^verbatim>\<open>trials_processing\<close> is an
  argument (applied to the columns \<^verbatim>\<open>response_latency\<close> and \<^verbatim>\<open>start_time\<close>; its other
  arguments are constants). Assigning a column whose length is not the number of rows
  raises ValueError.
\<close>

definition derived_columns ::
  "bool \<Rightarrow> ('a option list \<Rightarrow> 'a option list \<Rightarrow> error + 'r list)
     \<Rightarrow> ('a, 'n) trial_scheme list \<Rightarrow> error + ('a, 'r) returned_trial list" where
  "derived_columns filter_aborted_trials calculate_reward_rate trials3 =
     (let trials4 = (if filter_aborted_trials
                     then filter (\<lambda>t. \<not> aborted t) trials3 else trials3)
      in case calculate_reward_rate (map response_latency trials4)
                                    (map trial.start_time trials4) of
           Inl e \<Rightarrow> Inl e
         | Inr rates \<Rightarrow>
             if length rates \<noteq> length trials4 then Inl ValueError
             else Inr (map2 returned_row trials4 rates))"

text \<open>
  \<^verbatim>\<open>get_trials\<close>, lines 217-296. Its arguments are the flag, the function
  \<^verbatim>\<open>calculate_reward_rate\<close>, and the two tables that the superclass reads from the
  NWB file.
\<close>

definition get_trials ::
  "bool \<Rightarrow> ('a option list \<Rightarrow> 'a option list \<Rightarrow> error + 'r list)
     \<Rightarrow> ('a::{linorder,minus,zero}, 'n) trial_scheme list
     \<Rightarrow> ('a, 'm) presentation_scheme list
     \<Rightarrow> error + ('a, 'r) returned_trial list" where
  "get_trials filter_aborted_trials calculate_reward_rate trials0 stimulus_presentations =
     (case timing_patch stimulus_presentations trials0 of
        Inl e \<Rightarrow> Inl e
      | Inr trials3 \<Rightarrow>
          if \<not> list_all (change_time_asserted stimulus_presentations) trials3
          then Inl AssertionError
          else derived_columns filter_aborted_trials calculate_reward_rate trials3)"

subsection \<open>Notions used in the statements about \<^verbatim>\<open>get_trials\<close>\<close>

text \<open>
  The two updates that \<^verbatim>\<open>get_trials\<close> makes to one row: the change time (line 233),
  then the response latency computed from the new change time (line 249).
\<close>

definition patched_row ::
  "('a::{linorder,minus,zero}, 'm) presentation_scheme list \<Rightarrow> ('a, 'n) trial_scheme
     \<Rightarrow> ('a, 'n) trial_scheme" where
  "patched_row sp t =
     (let t1 = t\<lparr>change_time := get_next_flash sp (change_time t)\<rparr>
      in t1\<lparr>response_latency := recalculate_response_latency t1\<rparr>)"

text \<open>
  The rows that pass the two filters of \<^verbatim>\<open>get_trials\<close>: the mask of line 241 and, when
  \<^verbatim>\<open>filter_aborted_trials\<close> is set, the query of line 258.
\<close>

definition kept_trial ::
  "bool \<Rightarrow> ('a::linorder, 'm) presentation_scheme list \<Rightarrow> ('a, 'n) trial_scheme \<Rightarrow> bool" where
  "kept_trial f sp t =
     (\<not> fgt (stop_time t) (presentation.start_time (last sp)) \<and>
      (if f then \<not> aborted t else True))"

text \<open>
  A returned row \<open>r\<close> is the trial \<open>t\<close> of the NWB table: they agree on every kept
  column other than the two that \<^verbatim>\<open>get_trials\<close> writes.
\<close>

definition same_trial :: "('a, 'x) trial_scheme \<Rightarrow> ('a, 'y) trial_scheme \<Rightarrow> bool" where
  "same_trial r t =
     (trial.truncate (r\<lparr>change_time := change_time t, response_latency := response_latency t\<rparr>)
        = trial.truncate t)"

text \<open>The table is in the order of its start times (NaN start times are in any place).\<close>

definition time_ordered :: "('a::linorder, 'm) presentation_scheme list \<Rightarrow> bool" where
  "time_ordered sp =
     sorted_wrt (\<lambda>p q. \<not> fgt (presentation.start_time p) (presentation.start_time q)) sp"

text \<open>
  \<open>c\<close> is the start time of the first row, in the order of the table, whose start time
  is \<open>\<ge> x\<close>; \<open>c\<close> is null when there is no such row.
\<close>

definition first_flash_from ::
  "('a::linorder, 'm) presentation_scheme list \<Rightarrow> 'a option \<Rightarrow> 'a option \<Rightarrow> bool" where
  "first_flash_from sp x c =
     (case c of
        None \<Rightarrow> (\<forall>p\<in>set sp. \<not> fge (presentation.start_time p) x)
      | Some v \<Rightarrow> (\<exists>i<length sp. presentation.start_time (sp ! i) = Some v \<and> fge (Some v) x \<and>
                     (\<forall>j<i. \<not> fge (presentation.start_time (sp ! j)) x)))"

text \<open>
  The words of the specification: \<open>c\<close> is the minimum start time of the table that is
  \<open>\<ge> x\<close>; \<open>c\<close> is null when there is no such start time.
\<close>

definition earliest_flash_from ::
  "('a::linorder, 'm) presentation_scheme list \<Rightarrow> 'a option \<Rightarrow> 'a option \<Rightarrow> bool" where
  "earliest_flash_from sp x c =
     (case c of
        None \<Rightarrow> (\<forall>p\<in>set sp. \<not> fge (presentation.start_time p) x)
      | Some v \<Rightarrow> (\<exists>p\<in>set sp. presentation.start_time p = Some v) \<and> fge (Some v) x \<and>
                  (\<forall>p\<in>set sp. fge (presentation.start_time p) x
                     \<longrightarrow> fge (presentation.start_time p) (Some v)))"

subsection \<open>Session data for the concrete evaluations\<close>

text \<open>
  A stand-in for \<^verbatim>\<open>calculate_reward_rate\<close>: one rate for each trial. A go trial with a
  hit, and a stimulus presentations table with the given start times.
\<close>

definition one_rate_per_trial :: "'a option list \<Rightarrow> 'a option list \<Rightarrow> error + unit list" where
  "one_rate_per_trial latencies starts = Inr (replicate (length latencies) ())"

definition trial_at ::
  "real option \<Rightarrow> real option \<Rightarrow> real option list \<Rightarrow> bool \<Rightarrow> real trial" where
  "trial_at change stop licks ab =
     \<lparr> initial_image_name = ''im065'', change_image_name = ''im077'',
       change_time = change, lick_times = licks, response_latency = None,
       reward_time = None, go = True, catch = False, hit = True, miss = False,
       false_alarm = False, correct_reject = False, aborted = ab,
       auto_rewarded = False, reward_volume = Some 0,
       start_time = Some 0, stop_time = stop, trial_length = None \<rparr>"

definition presentations_at :: "real list \<Rightarrow> real presentation list" where
  "presentations_at starts = map (\<lambda>s. \<lparr> presentation.start_time = Some s \<rparr>) starts"

section \<open>Python values, dictionaries and data frames\<close>

text \<open>
  The values that \<^verbatim>\<open>json.load\<close> returns and that the task parameters hold. A
  dictionary with string keys is an association list, read with \<open>map_of\<close>.
\<close>

datatype pyval =
    PyNone
  | PyBool bool
  | PyInt int
  | PyFloat real
  | PyStr string
  | PyList "pyval list"
  | PyDict "(string \<times> pyval) list"

text \<open>\<^verbatim>\<open>d[key]\<close> with a string key: only a dictionary can be read with a string.\<close>

definition py_getitem :: "pyval \<Rightarrow> string \<Rightarrow> error + pyval" where
  "py_getitem d k =
     (case d of
        PyDict kvs \<Rightarrow> (case map_of kvs k of None \<Rightarrow> Inl (KeyError k) | Some v \<Rightarrow> Inr v)
      | _ \<Rightarrow> Inl TypeError)"

text \<open>
  \<^verbatim>\<open>key in d\<close> on a dictionary. (The one use, line 77, comes after line 61 has read
  the same object with a string key, so the object is a dictionary there.)
\<close>

definition py_has_key :: "pyval \<Rightarrow> string \<Rightarrow> bool" where
  "py_has_key d k = (case d of PyDict kvs \<Rightarrow> k \<in> set (map fst kvs) | _ \<Rightarrow> False)"

text \<open>
  \<^verbatim>\<open>x[i]\<close> with a number: a character of a string, an element of a list. The one use
  is \<^verbatim>\<open>[15]\<close> (line 331), which is no key of a dictionary with string keys.
\<close>

definition py_getitem_int :: "pyval \<Rightarrow> nat \<Rightarrow> error + pyval" where
  "py_getitem_int x i =
     (case x of
        PyStr s \<Rightarrow> if i < length s then Inr (PyStr [s ! i]) else Inl IndexError
      | PyList xs \<Rightarrow> if i < length xs then Inr (xs ! i) else Inl IndexError
      | PyDict kvs \<Rightarrow> Inl (KeyError ''15'')
      | _ \<Rightarrow> Inl TypeError)"

text \<open>
  A pandas data frame, as far as the reshaping methods go: the name of the index and
  the labelled columns in their order. The data of a column, \<open>'c\<close>, stays abstract.
\<close>

record 'c table =
  index_name :: "string option"
  columns :: "(string \<times> 'c) list"

definition labels :: "'c table \<Rightarrow> string list" where
  "labels df = map fst (columns df)"

text \<open>\<^verbatim>\<open>df.drop(columns=[...])\<close>: KeyError when a label is not a column.\<close>

definition drop_columns :: "string list \<Rightarrow> 'c table \<Rightarrow> error + 'c table" where
  "drop_columns ls df =
     (case filter (\<lambda>l. l \<notin> set (labels df)) ls of
        l # _ \<Rightarrow> Inl (KeyError l)
      | [] \<Rightarrow> Inr (df\<lparr>columns := filter (\<lambda>c. fst c \<notin> set ls) (columns df)\<rparr>))"

text \<open>
  \<^verbatim>\<open>left.join(right)\<close>, a left join on the index with no suffix: ValueError when a
  label is in both frames. The columns of the right frame follow those of the left
  one; \<open>align\<close> is the alignment of a right column on the index of the left frame.
\<close>

definition join :: "('c \<Rightarrow> 'c) \<Rightarrow> 'c table \<Rightarrow> 'c table \<Rightarrow> error + 'c table" where
  "join align left right =
     (if list_ex (\<lambda>l. l \<in> set (labels right)) (labels left) then Inl ValueError
      else Inr (left\<lparr>columns := columns left @ map (\<lambda>c. (fst c, align (snd c))) (columns right)\<rparr>))"

text \<open>
  \<^verbatim>\<open>df[[...]]\<close>: KeyError when a label is not a column; for every label of the list, in
  the order of the list, the columns with that label.
\<close>

definition select_columns :: "string list \<Rightarrow> 'c table \<Rightarrow> error + 'c table" where
  "select_columns ls df =
     (case filter (\<lambda>l. l \<notin> set (labels df)) ls of
        l # _ \<Rightarrow> Inl (KeyError l)
      | [] \<Rightarrow> Inr (df\<lparr>columns := concat (map (\<lambda>l. filter (\<lambda>c. fst c = l) (columns df)) ls)\<rparr>))"

text \<open>\<^verbatim>\<open>df.rename(columns={...})\<close>: a label that is not a key of the mapping stays.\<close>

definition rename_columns :: "(string \<times> string) list \<Rightarrow> 'c table \<Rightarrow> 'c table" where
  "rename_columns m df =
     df\<lparr>columns := map (\<lambda>c. (case map_of m (fst c) of None \<Rightarrow> fst c | Some l \<Rightarrow> l, snd c))
                        (columns df)\<rparr>"

text \<open>\<^verbatim>\<open>df[label] = data\<close>: the data of the column is replaced, or a last column is added.\<close>

definition set_column :: "string \<Rightarrow> 'c \<Rightarrow> 'c table \<Rightarrow> 'c table" where
  "set_column l d df =
     (if l \<in> set (labels df)
      then df\<lparr>columns := map (\<lambda>c. if fst c = l then (l, d) else c) (columns df)\<rparr>
      else df\<lparr>columns := columns df @ [(l, d)]\<rparr>)"

section \<open>\<^verbatim>\<open>ExtendedNwbApi\<close>: task parameters and stimulus presentations\<close>

text \<open>
  \<^verbatim>\<open>get_task_parameters\<close>, lines 179-188. The argument is the result of the method of
  the superclass, which reads the NWB file.
\<close>

definition get_task_parameters ::
  "error + (string \<rightharpoonup> pyval) \<Rightarrow> error + (string \<rightharpoonup> pyval)" where
  "get_task_parameters super_get_task_parameters =
     (case super_get_task_parameters of
        Inl e \<Rightarrow> Inl e
      | Inr task_parameters \<Rightarrow>
          Inr (task_parameters(''omitted_flash_fraction'' \<mapsto> PyFloat 0.05,
                               ''stimulus_duration_sec'' \<mapsto> PyFloat 0.25)))"

text \<open>Line 331, the right-hand side: \<^verbatim>\<open>self.get_task_parameters()['stage'][15]\<close>.\<close>

definition stage_image_set :: "error + (string \<rightharpoonup> pyval) \<Rightarrow> error + pyval" where
  "stage_image_set super_get_task_parameters =
     (case get_task_parameters super_get_task_parameters of
        Inl e \<Rightarrow> Inl e
      | Inr task_parameters \<Rightarrow>
          (case task_parameters ''stage'' of
             None \<Rightarrow> Inl (KeyError ''stage'')
           | Some stage \<Rightarrow> py_getitem_int stage 15))"

text \<open>The lists of lines 305-324 and 327-329.\<close>

definition stimulus_presentations_columns :: "string list" where
  "stimulus_presentations_columns =
     [''image_name'', ''image_index'', ''start_time'', ''stop_time'', ''omitted'', ''change'',
      ''duration'', ''licks'', ''rewards'', ''running_speed'', ''index'',
      ''time_from_last_lick'', ''time_from_last_reward'', ''time_from_last_change'',
      ''block_index'', ''image_block_repetition'', ''repeat_within_block'', ''image_set'']"

definition stimulus_presentations_renaming :: "(string \<times> string) list" where
  "stimulus_presentations_renaming =
     [(''index'', ''absolute_flash_number''), (''running_speed'', ''mean_running_speed'')]"

text \<open>
  \<^verbatim>\<open>get_stimulus_presentations\<close>, lines 298-334. The arguments are the alignment of the
  join, the column that pandas makes of one value, the table of the superclass, the
  table of \<^verbatim>\<open>get_extended_stimulus_presentations_df\<close> and the task parameters of the
  superclass.
\<close>

definition get_stimulus_presentations ::
  "('c \<Rightarrow> 'c) \<Rightarrow> (pyval \<Rightarrow> error + 'c) \<Rightarrow> error + 'c table \<Rightarrow> error + 'c table
     \<Rightarrow> error + (string \<rightharpoonup> pyval) \<Rightarrow> error + 'c table" where
  "get_stimulus_presentations align broadcast super_get_stimulus_presentations
       get_extended_stimulus_presentations_df super_get_task_parameters =
     (case super_get_stimulus_presentations of
        Inl e \<Rightarrow> Inl e
      | Inr stimulus_presentations0 \<Rightarrow>
     (case get_extended_stimulus_presentations_df of
        Inl e \<Rightarrow> Inl e
      | Inr extended0 \<Rightarrow>
     (case drop_columns [''omitted''] extended0 of
        Inl e \<Rightarrow> Inl e
      | Inr extended_stimulus_presentations \<Rightarrow>
     (case join align stimulus_presentations0 extended_stimulus_presentations of
        Inl e \<Rightarrow> Inl e
      | Inr stimulus_presentations1 \<Rightarrow>
     (case select_columns stimulus_presentations_columns stimulus_presentations1 of
        Inl e \<Rightarrow> Inl e
      | Inr stimulus_presentations2 \<Rightarrow>
     (let stimulus_presentations3 =
            rename_columns stimulus_presentations_renaming stimulus_presentations2
      in (case stage_image_set super_get_task_parameters of
            Inl e \<Rightarrow> Inl e
          | Inr image_set \<Rightarrow>
         (case broadcast image_set of
            Inl e \<Rightarrow> Inl e
          | Inr image_set_column \<Rightarrow>
              Inr ((set_column ''image_set'' image_set_column stimulus_presentations3)
                     \<lparr>index_name := Some ''flash_id''\<rparr>)))))))))"

section \<open>\<^verbatim>\<open>BehaviorProjectCache\<close>\<close>

text \<open>
  The file system is a map from paths to the contents of the files, \<open>'f\<close>. \<^verbatim>\<open>open\<close>
  raises FileNotFoundError on a path with no file. A path that is not a string raises
  TypeError; opening a file by the number of its descriptor is outside the model.
\<close>

definition py_open :: "(string \<rightharpoonup> 'f) \<Rightarrow> pyval \<Rightarrow> error + 'f" where
  "py_open fs path =
     (case path of
        PyStr p \<Rightarrow> (case fs p of None \<Rightarrow> Inl (FileNotFoundError p) | Some f \<Rightarrow> Inr f)
      | PyInt fd \<Rightarrow> Inl (OtherError ''file descriptor'')
      | PyBool fd \<Rightarrow> Inl (OtherError ''file descriptor'')
      | _ \<Rightarrow> Inl TypeError)"

text \<open>
  \<^verbatim>\<open>csv_io['reader']\<close>, line 14: \<^verbatim>\<open>pandas.read_csv\<close> opens the file and parses it;
  \<open>parse_csv\<close>, the parser of pandas with \<^verbatim>\<open>index_col='Unnamed: 0'\<close>, is an argument.
  pandas raises ValueError on a path that is neither a string nor a buffer.
\<close>

definition csv_reader ::
  "(string \<rightharpoonup> 'f) \<Rightarrow> ('f \<Rightarrow> error + 'c table) \<Rightarrow> pyval \<Rightarrow> error + 'c table" where
  "csv_reader fs parse_csv path =
     (case path of
        PyStr p \<Rightarrow> (case fs p of None \<Rightarrow> Inl (FileNotFoundError p) | Some f \<Rightarrow> parse_csv f)
      | _ \<Rightarrow> Inl ValueError)"

text \<open>
  \<^verbatim>\<open>get_analysis_files_metadata\<close>, lines 83-86; \<open>json_load\<close>, the parser \<^verbatim>\<open>json.load\<close>,
  is an argument.
\<close>

definition get_analysis_files_metadata ::
  "(string \<rightharpoonup> 'f) \<Rightarrow> ('f \<Rightarrow> error + pyval) \<Rightarrow> pyval \<Rightarrow> error + pyval" where
  "get_analysis_files_metadata fs json_load path =
     (case py_open fs path of
        Inl e \<Rightarrow> Inl e
      | Inr metadata_path \<Rightarrow> json_load metadata_path)"

record 'c behavior_project_cache =
  manifest :: "'c table"
  nwb_base_dir :: pyval
  analysis_files_base_dir :: pyval
  analysis_files_metadata :: pyval

definition manifest_columns :: "string list" where
  "manifest_columns =
     [''ophys_experiment_id'', ''container_id'', ''full_genotype'', ''imaging_depth'',
      ''targeted_structure'', ''stage_name'', ''animal_name'', ''sex'',
      ''date_of_acquisition'', ''retake_number'']"

definition metadata_warning :: string where
  "metadata_warning =
     ''Warning! No metadata supplied for analysis files. Set analysis_files_metadata_path to point at the json file containing the metadata''"

text \<open>
  \<^verbatim>\<open>BehaviorProjectCache.__init__\<close>, lines 61-81. The result is the object or the
  exception, with the lines that were printed. Line 61 reads \<^verbatim>\<open>cache_paths\<close> with a
  string key, which raises TypeError unless it is a dictionary.
\<close>

definition init_cache ::
  "(string \<rightharpoonup> 'f) \<Rightarrow> ('f \<Rightarrow> error + 'c table) \<Rightarrow> ('f \<Rightarrow> error + pyval) \<Rightarrow> pyval
     \<Rightarrow> (error + 'c behavior_project_cache) \<times> string list" where
  "init_cache fs parse_csv json_load cache_paths =
     (case py_getitem cache_paths ''manifest_path'' of
        Inl e \<Rightarrow> (Inl e, [])
      | Inr manifest_path \<Rightarrow>
     (case csv_reader fs parse_csv manifest_path of
        Inl e \<Rightarrow> (Inl e, [])
      | Inr manifest0 \<Rightarrow>
     (case select_columns manifest_columns manifest0 of
        Inl e \<Rightarrow> (Inl e, [])
      | Inr manifest1 \<Rightarrow>
     (case py_getitem cache_paths ''nwb_base_dir'' of
        Inl e \<Rightarrow> (Inl e, [])
      | Inr nwb \<Rightarrow>
     (case py_getitem cache_paths ''analysis_files_base_dir'' of
        Inl e \<Rightarrow> (Inl e, [])
      | Inr analysis \<Rightarrow>
     (if py_has_key cache_paths ''analysis_files_metadata_path''
      then
        (case py_getitem cache_paths ''analysis_files_metadata_path'' of
           Inl e \<Rightarrow> (Inl e, [])
         | Inr path \<Rightarrow>
        (case get_analysis_files_metadata fs json_load path of
           Inl e \<Rightarrow> (Inl e, [])
         | Inr metadata \<Rightarrow>
             (Inr \<lparr> manifest = manifest1, nwb_base_dir = nwb,
                    analysis_files_base_dir = analysis,
                    analysis_files_metadata = metadata \<rparr>, [])))
      else
        (Inr \<lparr> manifest = manifest1, nwb_base_dir = nwb,
               analysis_files_base_dir = analysis,
               analysis_files_metadata = PyNone \<rparr>, [metadata_warning])))))))"

text \<open>\<^verbatim>\<open>BehaviorProjectCache.from_json\<close>, lines 138-145.\<close>

definition from_json ::
  "(string \<rightharpoonup> 'f) \<Rightarrow> ('f \<Rightarrow> error + 'c table) \<Rightarrow> ('f \<Rightarrow> error + pyval) \<Rightarrow> pyval
     \<Rightarrow> (error + 'c behavior_project_cache) \<times> string list" where
  "from_json fs parse_csv json_load json_path =
     (case py_open fs json_path of
        Inl e \<Rightarrow> (Inl e, [])
      | Inr json_file \<Rightarrow>
          (case json_load json_file of
             Inl e \<Rightarrow> (Inl e, [])
           | Inr cache_json \<Rightarrow> init_cache fs parse_csv json_load cache_json))"

section \<open>\<^verbatim>\<open>ExtendedBehaviorSession\<close>\<close>

text \<open>
  Modelled from the spec: the class \<^verbatim>\<open>LazyProperty\<close> of \<^verbatim>\<open>allensdk.core.lazy_property\<close>
  is not among the sources. The specification and the docstring of
  \<^verbatim>\<open>ExtendedBehaviorSession\<close> say of it: the attribute accesses the data only on the
  first demand, and then memoizes the result for reuse. A lazy property holds its
  loader and the memoized value, if any; \<open>loads\<close> counts the calls of the loader. The
  loader reads the files, \<open>'w\<close>, as they are at the time of the call.
\<close>

record ('w, 'v) lazy_property =
  api_method :: "'w \<Rightarrow> 'v"
  memoized :: "'v option"
  loads :: nat

definition LazyProperty :: "('w \<Rightarrow> 'v) \<Rightarrow> ('w, 'v) lazy_property" where
  "LazyProperty loader = \<lparr> api_method = loader, memoized = None, loads = 0 \<rparr>"

text \<open>
  Modelled from the spec: the access to a lazy property, at the state \<open>w\<close> of the files.
  The first access calls the loader and memoizes its result; a later access returns
  the memoized value.
\<close>

definition lazy_get :: "('w, 'v) lazy_property \<Rightarrow> 'w \<Rightarrow> 'v \<times> ('w, 'v) lazy_property" where
  "lazy_get p w =
     (case memoized p of
        Some v \<Rightarrow> (v, p)
      | None \<Rightarrow> (let v = api_method p w
                 in (v, p\<lparr>memoized := Some v, loads := loads p + 1\<rparr>)))"

text \<open>
  The three loaders that \<^verbatim>\<open>__init__\<close> wraps (lines 426-428), and the three attributes
  of the session.
\<close>

record ('w, 'v) extended_nwb_api =
  get_trial_response_df :: "'w \<Rightarrow> 'v"
  get_flash_response_df :: "'w \<Rightarrow> 'v"
  get_image_index :: "'w \<Rightarrow> 'v"

record ('w, 'v) extended_behavior_session =
  trial_response_df :: "('w, 'v) lazy_property"
  flash_response_df :: "('w, 'v) lazy_property"
  image_index :: "('w, 'v) lazy_property"

datatype attribute = Trial_response_df | Flash_response_df | Image_index

text \<open>
  \<^verbatim>\<open>ExtendedBehaviorSession.__init__\<close>, lines 421-428: the three attributes that this
  class adds. The attributes that the superclass sets are not under study.
\<close>

definition init_session :: "('w, 'v) extended_nwb_api \<Rightarrow> ('w, 'v) extended_behavior_session" where
  "init_session api =
     \<lparr> trial_response_df = LazyProperty (get_trial_response_df api),
       flash_response_df = LazyProperty (get_flash_response_df api),
       image_index = LazyProperty (get_image_index api) \<rparr>"

definition loader_of :: "('w, 'v) extended_nwb_api \<Rightarrow> attribute \<Rightarrow> 'w \<Rightarrow> 'v" where
  "loader_of api a =
     (case a of
        Trial_response_df \<Rightarrow> get_trial_response_df api
      | Flash_response_df \<Rightarrow> get_flash_response_df api
      | Image_index \<Rightarrow> get_image_index api)"

definition property_of ::
  "('w, 'v) extended_behavior_session \<Rightarrow> attribute \<Rightarrow> ('w, 'v) lazy_property" where
  "property_of s a =
     (case a of
        Trial_response_df \<Rightarrow> trial_response_df s
      | Flash_response_df \<Rightarrow> flash_response_df s
      | Image_index \<Rightarrow> image_index s)"

text \<open>The access \<^verbatim>\<open>session.a\<close> at the state \<open>w\<close> of the files.\<close>

definition get_attribute ::
  "('w, 'v) extended_behavior_session \<Rightarrow> attribute \<Rightarrow> 'w
     \<Rightarrow> 'v \<times> ('w, 'v) extended_behavior_session" where
  "get_attribute s a w =
     (case a of
        Trial_response_df \<Rightarrow>
          (let (v, p) = lazy_get (trial_response_df s) w in (v, s\<lparr>trial_response_df := p\<rparr>))
      | Flash_response_df \<Rightarrow>
          (let (v, p) = lazy_get (flash_response_df s) w in (v, s\<lparr>flash_response_df := p\<rparr>))
      | Image_index \<Rightarrow>
          (let (v, p) = lazy_get (image_index s) w in (v, s\<lparr>image_index := p\<rparr>)))"

text \<open>A run of accesses, each at the state of the files of its time.\<close>

fun get_attributes ::
  "('w, 'v) extended_behavior_session \<Rightarrow> (attribute \<times> 'w) list
     \<Rightarrow> 'v list \<times> ('w, 'v) extended_behavior_session" where
  "get_attributes s [] = ([], s)"
| "get_attributes s ((a, w) # xs) =
     (let (v, s1) = get_attribute s a w;
          (vs, s2) = get_attributes s1 xs
      in (v # vs, s2))"

subsection \<open>Notions used in the statements about the session\<close>

text \<open>
  A lazy property after a run of accesses, the first of them (if any) at the state
  \<open>w\<close> of the files.
\<close>

definition after_accesses ::
  "('w, 'v) lazy_property \<Rightarrow> 'w option \<Rightarrow> ('w, 'v) lazy_property" where
  "after_accesses p first_access =
     (case memoized p of
        Some v \<Rightarrow> p
      | None \<Rightarrow> (case first_access of
                   None \<Rightarrow> p
                 | Some w \<Rightarrow> p\<lparr>memoized := Some (api_method p w), loads := loads p + 1\<rparr>))"

section \<open>Data for the concrete evaluations\<close>

text \<open>
  The two tables of \<^verbatim>\<open>get_stimulus_presentations\<close>, with the origin of a column as its
  data, and the task parameters of a session of the stage \<^verbatim>\<open>OPHYS_6_images_B\<close>.
\<close>

definition nwb_presentations :: "string table" where
  "nwb_presentations =
     \<lparr> index_name = Some ''stimulus_presentations_id'',
       columns = map (\<lambda>l. (l, ''nwb''))
         [''start_time'', ''stop_time'', ''duration'', ''image_index'', ''image_name'',
          ''image_set'', ''index'', ''omitted'', ''orientation''] \<rparr>"

definition extended_presentations :: "string table" where
  "extended_presentations =
     \<lparr> index_name = None,
       columns = map (\<lambda>l. (l, ''extended''))
         [''omitted'', ''change'', ''licks'', ''rewards'', ''running_speed'',
          ''time_from_last_lick'', ''time_from_last_reward'', ''time_from_last_change'',
          ''block_index'', ''image_block_repetition'', ''repeat_within_block''] \<rparr>"

definition nwb_task_parameters :: "string \<rightharpoonup> pyval" where
  "nwb_task_parameters =
     [''stage'' \<mapsto> PyStr ''OPHYS_6_images_B'', ''stimulus_duration_sec'' \<mapsto> PyFloat 6,
      ''task'' \<mapsto> PyStr ''DoC_untranslated'']"

definition column_of_letter :: "pyval \<Rightarrow> error + string" where
  "column_of_letter v = (case v of PyStr s \<Rightarrow> Inr s | _ \<Rightarrow> Inl TypeError)"

text \<open>
  A file system with a manifest and a JSON file of cache paths, and parsers that know
  these two files.
\<close>

definition manifest_table :: "string table" where
  "manifest_table =
     \<lparr> index_name = None,
       columns = map (\<lambda>l. (l, ''csv''))
         [''ophys_experiment_id'', ''container_id'', ''full_genotype'', ''imaging_depth'',
          ''targeted_structure'', ''stage_name'', ''animal_name'', ''sex'',
          ''date_of_acquisition'', ''retake_number'', ''cre_line''] \<rparr>"

definition cache_paths_without_metadata :: "(string \<times> pyval) list" where
  "cache_paths_without_metadata =
     [(''manifest_path'', PyStr ''/data/manifest.csv''),
      (''nwb_base_dir'', PyStr ''/data/nwb_files''),
      (''analysis_files_base_dir'', PyStr ''/data/analysis_files'')]"

definition files_on_disk :: "string \<rightharpoonup> string" where
  "files_on_disk = [''/data/manifest.csv'' \<mapsto> ''manifest'', ''/data/cache.json'' \<mapsto> ''paths'']"

definition parse_csv_on_disk :: "string \<Rightarrow> error + string table" where
  "parse_csv_on_disk f = (if f = ''manifest'' then Inr manifest_table else Inl ValueError)"

definition json_load_on_disk :: "string \<Rightarrow> error + pyval" where
  "json_load_on_disk f =
     (if f = ''paths'' then Inr (PyDict cache_paths_without_metadata) else Inl ValueError)"

text \<open>An API whose loaders return the name of the table and the state of the files.\<close>

definition api_on_disk :: "(nat, string \<times> nat) extended_nwb_api" where
  "api_on_disk =
     \<lparr> get_trial_response_df = (\<lambda>w. (''trial_response_df'', w)),
       get_flash_response_df = (\<lambda>w. (''flash_response_df'', w)),
       get_image_index = (\<lambda>w. (''image_index'', w)) \<rparr>"

section \<open>Properties of \<^verbatim>\<open>get_trials\<close>\<close>

subsection \<open>The next flash\<close>

lemma get_next_flash_alt:
  "get_next_flash sp x =
     (case filter (\<lambda>p. fge (presentation.start_time p) x) sp of
        [] \<Rightarrow> None | p # _ \<Rightarrow> presentation.start_time p)"
  by (simp add: get_next_flash_def Let_def split: list.splits)

lemma get_next_flash_Cons:
  "get_next_flash (p # sp) x =
     (if fge (presentation.start_time p) x then presentation.start_time p
      else get_next_flash sp x)"
  by (simp add: get_next_flash_alt)

lemma fge_Some: "fge a x \<Longrightarrow> \<exists>c. a = Some c"
  by (auto simp: fge_def split: option.splits)

lemma get_next_flash_None:
  "(get_next_flash sp x = None) = (\<forall>p\<in>set sp. \<not> fge (presentation.start_time p) x)"
  by (induction sp) (auto simp: get_next_flash_alt get_next_flash_Cons dest: fge_Some)

lemma get_next_flash_Some:
  "get_next_flash sp x = Some c \<Longrightarrow>
   \<exists>i<length sp. presentation.start_time (sp ! i) = Some c \<and> fge (Some c) x \<and>
      (\<forall>j<i. \<not> fge (presentation.start_time (sp ! j)) x)"
proof (induction sp)
  case Nil
  then show ?case by (simp add: get_next_flash_alt)
next
  case (Cons p sp)
  show ?case
  proof (cases "fge (presentation.start_time p) x")
    case True
    with Cons.prems have "presentation.start_time p = Some c"
      by (simp add: get_next_flash_Cons)
    with True show ?thesis by (intro exI[of _ 0]) simp
  next
    case False
    with Cons.prems have "get_next_flash sp x = Some c"
      by (simp add: get_next_flash_Cons)
    from Cons.IH[OF this] obtain i where i: "i < length sp"
      "presentation.start_time (sp ! i) = Some c" "fge (Some c) x"
      "\<forall>j<i. \<not> fge (presentation.start_time (sp ! j)) x" by blast
    show ?thesis
    proof (intro exI[of _ "Suc i"] conjI allI impI)
      fix j assume "j < Suc i"
      then show "\<not> fge (presentation.start_time ((p # sp) ! j)) x"
        using False i(4) by (cases j) auto
    qed (use i in auto)
  qed
qed

lemma get_next_flash_sorted:
  "sorted_wrt (\<lambda>p q. \<not> fgt (presentation.start_time p) (presentation.start_time q)) sp \<Longrightarrow>
   get_next_flash sp x = Some c \<Longrightarrow> p \<in> set sp \<Longrightarrow> fge (presentation.start_time p) x \<Longrightarrow>
   fge (presentation.start_time p) (Some c)"
proof (induction sp)
  case Nil
  then show ?case by simp
next
  case (Cons q sp)
  show ?case
  proof (cases "fge (presentation.start_time q) x")
    case True
    with Cons.prems(2) have q: "presentation.start_time q = Some c"
      by (simp add: get_next_flash_Cons)
    from Cons.prems(4) obtain d where d: "presentation.start_time p = Some d"
      by (auto dest: fge_Some)
    show ?thesis
    proof (cases "p = q")
      case True
      with q show ?thesis by (simp add: fge_def)
    next
      case False
      with Cons.prems(3) have "p \<in> set sp" by simp
      with Cons.prems(1)
      have "\<not> fgt (presentation.start_time q) (presentation.start_time p)" by simp
      with q d show ?thesis by (simp add: fge_def fgt_def)
    qed
  next
    case False
    with Cons.prems have "get_next_flash sp x = Some c" "p \<in> set sp"
      by (auto simp: get_next_flash_Cons)
    with Cons.IH Cons.prems show ?thesis by simp
  qed
qed

lemma get_next_flash_first: "first_flash_from sp x (get_next_flash sp x)"
proof (cases "get_next_flash sp x")
  case None
  show ?thesis unfolding None first_flash_from_def
    using None[unfolded get_next_flash_None] by simp
next
  case (Some c)
  from get_next_flash_Some[OF Some] show ?thesis
    by (simp add: first_flash_from_def Some)
qed

lemma get_next_flash_earliest:
  assumes "time_ordered sp"
  shows "earliest_flash_from sp x (get_next_flash sp x)"
proof (cases "get_next_flash sp x")
  case None
  show ?thesis unfolding None earliest_flash_from_def
    using None[unfolded get_next_flash_None] by simp
next
  case (Some c)
  from get_next_flash_Some[OF Some] obtain i where "i < length sp"
    "presentation.start_time (sp ! i) = Some c" "fge (Some c) x" by blast
  moreover then have "\<exists>p\<in>set sp. presentation.start_time p = Some c"
    using nth_mem by blast
  moreover have "\<forall>p\<in>set sp. fge (presentation.start_time p) x
      \<longrightarrow> fge (presentation.start_time p) (Some c)"
    using get_next_flash_sorted[OF assms[unfolded time_ordered_def] Some] by blast
  ultimately show ?thesis by (simp add: earliest_flash_from_def Some)
qed

subsection \<open>The shape of the returned table\<close>

lemma filter_map_comm: "filter P (map g xs) = map g (filter (\<lambda>x. P (g x)) xs)"
  by (induction xs) auto

lemma timing_patch_Inr:
  "timing_patch sp ts = Inr trials3 \<Longrightarrow>
   sp \<noteq> [] \<and>
   trials3 = map (patched_row sp)
               (filter (\<lambda>t. \<not> fgt (stop_time t) (presentation.start_time (last sp))) ts)"
  by (auto simp: timing_patch_def drop_uncovered_trials_def patch_change_time_def Let_def
        filter_map_comm patched_row_def o_def split: if_splits)

lemma timing_patch_Inl: "timing_patch sp ts = Inl e \<Longrightarrow> e = IndexError \<and> sp = []"
  by (auto simp: timing_patch_def drop_uncovered_trials_def Let_def split: if_splits)

lemma patched_row_sel [simp]:
  "aborted (patched_row sp t) = aborted t"
  "stop_time (patched_row sp t) = stop_time t"
  "change_time (patched_row sp t) = get_next_flash sp (change_time t)"
  "lick_times (patched_row sp t) = lick_times t"
  by (simp_all add: patched_row_def Let_def)

lemma get_trials_Inr:
  assumes "get_trials f crr ts sp = Inr out"
  shows "sp \<noteq> [] \<and> (\<exists>rates. length rates = length (filter (kept_trial f sp) ts) \<and>
           out = map2 returned_row (map (patched_row sp) (filter (kept_trial f sp) ts)) rates)"
proof -
  from assms obtain trials3 where t3: "timing_patch sp ts = Inr trials3"
    and d: "derived_columns f crr trials3 = Inr out"
    by (auto simp: get_trials_def split: sum.splits if_splits)
  from timing_patch_Inr[OF t3] have sp: "sp \<noteq> []"
    and eq: "trials3 = map (patched_row sp)
               (filter (\<lambda>t. \<not> fgt (stop_time t) (presentation.start_time (last sp))) ts)"
    by simp_all
  define trials4 where "trials4 = (if f then filter (\<lambda>t. \<not> aborted t) trials3 else trials3)"
  have t4: "trials4 = map (patched_row sp) (filter (kept_trial f sp) ts)"
    unfolding trials4_def eq
    by (cases f) (simp_all add: filter_map_comm kept_trial_def[abs_def])
  from d obtain rates
    where "length rates = length trials4" "out = map2 returned_row trials4 rates"
    by (auto simp: derived_columns_def Let_def trials4_def split: sum.splits if_splits)
  with sp t4 show ?thesis by auto
qed

lemma map2_all2:
  assumes "length ys = length xs" "\<And>x y. x \<in> set xs \<Longrightarrow> R (g (h x) y) x"
  shows "list_all2 R (map2 g (map h xs) ys) xs"
  using assms
proof (induction xs arbitrary: ys)
  case Nil
  then show ?case by simp
next
  case (Cons x xs)
  then show ?case by (cases ys) auto
qed

lemma map2_set:
  assumes "length ys = length xs" "r \<in> set (map2 g (map h xs) ys)"
  shows "\<exists>x\<in>set xs. \<exists>y. r = g (h x) y"
proof -
  from assms obtain i where "i < length xs" "r = g (h (xs ! i)) (ys ! i)"
    by (auto simp: set_zip)
  then show ?thesis using nth_mem by blast
qed

lemma same_trial_returned: "same_trial (returned_row (patched_row sp t) rate) t"
  by (simp add: same_trial_def returned_row_def patched_row_def Let_def trial.defs)

lemma recalculate_response_latency_alt:
  "recalculate_response_latency row =
     (if lick_times row \<noteq> [] \<and> change_time row \<noteq> None
      then fsub (hd (lick_times row)) (change_time row) else None)"
  by (cases "lick_times row") (simp_all add: recalculate_response_latency_def isnull_def)

lemma change_time_asserted_patched: "change_time_asserted sp (patched_row sp t)"
proof (cases "get_next_flash sp (change_time t)")
  case None
  then show ?thesis by (simp add: change_time_asserted_def isnull_def)
next
  case (Some c)
  from get_next_flash_Some[OF Some] obtain i
    where "i < length sp" "presentation.start_time (sp ! i) = Some c" by blast
  then have "\<exists>p\<in>set sp. presentation.start_time p = Some c" using nth_mem by blast
  then show ?thesis by (simp add: change_time_asserted_def isnull_def Some list_ex_iff)
qed

lemma derived_columns_Inl:
  "derived_columns f crr trials3 = Inl e \<Longrightarrow> e = ValueError \<or> (\<exists>rl st. crr rl st = Inl e)"
  by (auto simp: derived_columns_def Let_def split: sum.splits if_splits)

lemmas get_trials_eval =
  get_trials_def timing_patch_def derived_columns_def patch_change_time_def
  drop_uncovered_trials_def get_next_flash_def recalculate_response_latency_def
  change_time_asserted_def returned_row_def fge_def fgt_def fsub_def isnull_def Let_def
  one_rate_per_trial_def trial_at_def presentations_at_def

subsection \<open>The change time\<close>

text \<open>
  Claim C1, as the code has it. Every returned row is a trial of the NWB table that
  passed the filters, in the order of the table, and its change time is the start time
  of the first row, in the order of the stimulus presentations table, whose start time
  is greater than or equal to the original change time of the trial; it is null when
  there is no such row. When the stimulus presentations table is in the order of its
  start times, this is the minimum start time that is greater than or equal to the
  original change time.
\<close>

theorem get_trials_change_time_first_flash:
  assumes "get_trials f crr ts sp = Inr out"
  shows "list_all2
           (\<lambda>r t. same_trial r t \<and>
                  first_flash_from sp (change_time t) (change_time r) \<and>
                  (time_ordered sp \<longrightarrow> earliest_flash_from sp (change_time t) (change_time r)))
           out (filter (kept_trial f sp) ts)"
proof -
  from get_trials_Inr[OF assms] obtain rates
    where len: "length rates = length (filter (kept_trial f sp) ts)"
      and out: "out = map2 returned_row (map (patched_row sp) (filter (kept_trial f sp) ts)) rates"
    by blast
  show ?thesis unfolding out
  proof (rule map2_all2[OF len])
    fix x y
    have "change_time (returned_row (patched_row sp x) y) = get_next_flash sp (change_time x)"
      by (simp add: returned_row_def)
    then show "same_trial (returned_row (patched_row sp x) y) x \<and>
       first_flash_from sp (change_time x) (change_time (returned_row (patched_row sp x) y)) \<and>
       (time_ordered sp \<longrightarrow>
          earliest_flash_from sp (change_time x)
            (change_time (returned_row (patched_row sp x) y)))"
      by (simp add: same_trial_returned get_next_flash_first get_next_flash_earliest)
  qed
qed

text \<open>
  With the start times 1, 3, 5 in order, the trial that changes at 2 gets the change
  time 3, the minimum; the second trial stops after the last presentation and is
  dropped.
\<close>

theorem get_trials_change_time_first_flash_witness:
  "get_trials True one_rate_per_trial
     [trial_at (Some 2) (Some 3) [Some 6] False, trial_at (Some 4) (Some 7) [] False]
     (presentations_at [1, 3, 5])
     = Inr [returned_row ((trial_at (Some 2) (Some 3) [Some 6] False)
                            \<lparr>change_time := Some 3, response_latency := Some 3\<rparr>) ()]
   \<and> time_ordered (presentations_at [1, 3, 5])
   \<and> first_flash_from (presentations_at [1, 3, 5]) (Some 2) (Some 3)
   \<and> earliest_flash_from (presentations_at [1, 3, 5]) (Some 2) (Some 3)"
proof -
  have h: "get_trials True one_rate_per_trial
     [trial_at (Some 2) (Some 3) [Some 6] False, trial_at (Some 4) (Some 7) [] False]
     (presentations_at [1, 3, 5])
     = Inr [returned_row ((trial_at (Some 2) (Some 3) [Some 6] False)
                            \<lparr>change_time := Some 3, response_latency := Some 3\<rparr>) ()]"
    by (simp add: get_trials_eval)
  have o: "time_ordered (presentations_at [1, 3, 5])"
    by (simp add: time_ordered_def presentations_at_def fgt_def)
  from get_trials_change_time_first_flash[OF h] o show ?thesis using h
    by (simp add: kept_trial_def trial_at_def presentations_at_def fgt_def returned_row_def)
qed

text \<open>
  Claim C1 as it is stated fails on a table that is not in the order of its start
  times. With the start times 5, 3 the trial that changes at 2 gets the change time 5,
  the first row that is not before 2, and the minimum start time from 2 on is 3.
\<close>

theorem get_trials_change_time_not_earliest:
  "get_trials True one_rate_per_trial [trial_at (Some 2) (Some 3) [Some 6] False]
     (presentations_at [5, 3])
     = Inr [returned_row ((trial_at (Some 2) (Some 3) [Some 6] False)
                            \<lparr>change_time := Some 5, response_latency := Some 1\<rparr>) ()]
   \<and> \<not> earliest_flash_from (presentations_at [5, 3]) (Some 2) (Some 5)
   \<and> earliest_flash_from (presentations_at [5, 3]) (Some 2) (Some 3)"
  by (simp add: get_trials_eval earliest_flash_from_def)

subsection \<open>The response latency\<close>

text \<open>
  Claim C2. In every returned row the response latency is the one computed from the
  patched change time: when the trial has at least one lick time and its patched
  change time is not null, it is the first lick time minus the patched change time;
  otherwise it is NaN.
\<close>

theorem get_trials_response_latency:
  assumes "get_trials f crr ts sp = Inr out"
  shows "\<forall>r\<in>set out. response_latency r =
           (if lick_times r \<noteq> [] \<and> change_time r \<noteq> None
            then fsub (hd (lick_times r)) (change_time r) else None)"
proof
  fix r assume r: "r \<in> set out"
  from get_trials_Inr[OF assms] obtain rates
    where len: "length rates = length (filter (kept_trial f sp) ts)"
      and out: "out = map2 returned_row (map (patched_row sp) (filter (kept_trial f sp) ts)) rates"
    by blast
  from map2_set[OF len r[unfolded out]] obtain t y
    where "t \<in> set (filter (kept_trial f sp) ts)"
      and "r = returned_row (patched_row sp t) y" by blast
  then show "response_latency r =
           (if lick_times r \<noteq> [] \<and> change_time r \<noteq> None
            then fsub (hd (lick_times r)) (change_time r) else None)"
    by (simp add: returned_row_def patched_row_def Let_def recalculate_response_latency_alt)
qed

text \<open>
  Three trials: licks at 6 and 8 after a change patched to 3 (latency 3), no lick
  (NaN), and a lick at 4 with no presentation from 9 on, so a null change time (NaN).
\<close>

theorem get_trials_response_latency_witness:
  "get_trials False one_rate_per_trial
     [trial_at (Some 2) (Some 3) [Some 6, Some 8] False,
      trial_at (Some 2) (Some 4) [] False,
      trial_at (Some 9) (Some 5) [Some 4] True]
     (presentations_at [1, 3, 5])
     = Inr [returned_row ((trial_at (Some 2) (Some 3) [Some 6, Some 8] False)
                            \<lparr>change_time := Some 3, response_latency := Some 3\<rparr>) (),
            returned_row ((trial_at (Some 2) (Some 4) [] False)
                            \<lparr>change_time := Some 3, response_latency := None\<rparr>) (),
            returned_row ((trial_at (Some 9) (Some 5) [Some 4] True)
                            \<lparr>change_time := None, response_latency := None\<rparr>) ()]
   \<and> fsub (Some 6) (Some 3) = Some (3::real)"
proof -
  have h: "get_trials False one_rate_per_trial
     [trial_at (Some 2) (Some 3) [Some 6, Some 8] False,
      trial_at (Some 2) (Some 4) [] False,
      trial_at (Some 9) (Some 5) [Some 4] True]
     (presentations_at [1, 3, 5])
     = Inr [returned_row ((trial_at (Some 2) (Some 3) [Some 6, Some 8] False)
                            \<lparr>change_time := Some 3, response_latency := Some 3\<rparr>) (),
            returned_row ((trial_at (Some 2) (Some 4) [] False)
                            \<lparr>change_time := Some 3, response_latency := None\<rparr>) (),
            returned_row ((trial_at (Some 9) (Some 5) [Some 4] True)
                            \<lparr>change_time := None, response_latency := None\<rparr>) ()]"
    by (simp add: get_trials_eval)
  from get_trials_response_latency[OF h] show ?thesis using h
    by (simp add: returned_row_def trial_at_def)
qed

subsection \<open>The binary response\<close>

text \<open>
  Claim C3. In every returned row \<^verbatim>\<open>response_binary\<close> is \<^verbatim>\<open>hit\<close> or \<^verbatim>\<open>false_alarm\<close>,
  and these are the two columns of the trial of the NWB table.
\<close>

theorem get_trials_response_binary:
  assumes "get_trials f crr ts sp = Inr out"
  shows "(\<forall>r\<in>set out. response_binary r = (hit r \<or> false_alarm r)) \<and>
         list_all2 (\<lambda>r t. response_binary r = (hit t \<or> false_alarm t))
           out (filter (kept_trial f sp) ts)"
proof -
  from get_trials_Inr[OF assms] obtain rates
    where len: "length rates = length (filter (kept_trial f sp) ts)"
      and out: "out = map2 returned_row (map (patched_row sp) (filter (kept_trial f sp) ts)) rates"
    by blast
  have a: "\<forall>r\<in>set out. response_binary r = (hit r \<or> false_alarm r)"
  proof
    fix r assume r: "r \<in> set out"
    from map2_set[OF len r[unfolded out]] obtain t y
      where "t \<in> set (filter (kept_trial f sp) ts)"
        and "r = returned_row (patched_row sp t) y" by blast
    then show "response_binary r = (hit r \<or> false_alarm r)"
      by (simp add: returned_row_def)
  qed
  have b: "list_all2 (\<lambda>r t. response_binary r = (hit t \<or> false_alarm t))
             out (filter (kept_trial f sp) ts)"
    unfolding out
    by (rule map2_all2[OF len]) (simp add: returned_row_def patched_row_def Let_def)
  from a b show ?thesis ..
qed

text \<open>A hit, a false alarm and a miss: true, true, false.\<close>

theorem get_trials_response_binary_witness:
  "get_trials True one_rate_per_trial
     [trial_at (Some 2) (Some 3) [] False,
      (trial_at (Some 2) (Some 4) [] False)\<lparr>hit := False, false_alarm := True\<rparr>,
      (trial_at (Some 2) (Some 5) [] False)\<lparr>hit := False, miss := True\<rparr>]
     (presentations_at [1, 3, 5])
     = Inr [returned_row ((trial_at (Some 2) (Some 3) [] False)\<lparr>change_time := Some 3\<rparr>) (),
            returned_row ((trial_at (Some 2) (Some 4) [] False)
                            \<lparr>hit := False, false_alarm := True, change_time := Some 3\<rparr>) (),
            returned_row ((trial_at (Some 2) (Some 5) [] False)
                            \<lparr>hit := False, miss := True, change_time := Some 3\<rparr>) ()]
   \<and> map response_binary
        [returned_row ((trial_at (Some 2) (Some 3) [] False)\<lparr>change_time := Some 3\<rparr>) (),
         returned_row ((trial_at (Some 2) (Some 4) [] False)
                         \<lparr>hit := False, false_alarm := True, change_time := Some 3\<rparr>) (),
         returned_row ((trial_at (Some 2) (Some 5) [] False)
                         \<lparr>hit := False, miss := True, change_time := Some 3\<rparr>) ()]
      = [True, True, False]"
proof -
  have h: "get_trials True one_rate_per_trial
     [trial_at (Some 2) (Some 3) [] False,
      (trial_at (Some 2) (Some 4) [] False)\<lparr>hit := False, false_alarm := True\<rparr>,
      (trial_at (Some 2) (Some 5) [] False)\<lparr>hit := False, miss := True\<rparr>]
     (presentations_at [1, 3, 5])
     = Inr [returned_row ((trial_at (Some 2) (Some 3) [] False)\<lparr>change_time := Some 3\<rparr>) (),
            returned_row ((trial_at (Some 2) (Some 4) [] False)
                            \<lparr>hit := False, false_alarm := True, change_time := Some 3\<rparr>) (),
            returned_row ((trial_at (Some 2) (Some 5) [] False)
                            \<lparr>hit := False, miss := True, change_time := Some 3\<rparr>) ()]"
    by (simp add: get_trials_eval)
  from get_trials_response_binary[OF h] show ?thesis using h
    by (simp add: returned_row_def trial_at_def)
qed

subsection \<open>The trials after the last stimulus presentation\<close>

text \<open>
  Claim C4, as the code has it. The returned rows are, in the order of the table, the
  trials whose stop time is not strictly greater than the start time of the last row
  of the stimulus presentations table (and, when \<^verbatim>\<open>filter_aborted_trials\<close> is set, that
  are not aborted): a trial with a greater stop time is dropped, every other trial is
  kept at this step. So no returned row has a stop time greater than that start time,
  and when neither of the two is NaN the stop time is less than or equal to it.
\<close>

theorem get_trials_drops_uncovered_trials:
  assumes "get_trials f crr ts sp = Inr out"
  shows "list_all2 same_trial out
           (filter (\<lambda>t. \<not> fgt (stop_time t) (presentation.start_time (last sp)) \<and>
                         (f \<longrightarrow> \<not> aborted t)) ts) \<and>
         (\<forall>r\<in>set out. \<not> fgt (stop_time r) (presentation.start_time (last sp)) \<and>
            (stop_time r \<noteq> None \<and> presentation.start_time (last sp) \<noteq> None \<longrightarrow>
               fge (presentation.start_time (last sp)) (stop_time r)))"
proof -
  have k: "(\<lambda>t. \<not> fgt (stop_time t) (presentation.start_time (last sp)) \<and> (f \<longrightarrow> \<not> aborted t))
             = kept_trial f sp"
    by (auto simp: kept_trial_def fun_eq_iff)
  from get_trials_Inr[OF assms] obtain rates
    where len: "length rates = length (filter (kept_trial f sp) ts)"
      and out: "out = map2 returned_row (map (patched_row sp) (filter (kept_trial f sp) ts)) rates"
    by blast
  have a: "list_all2 same_trial out (filter (kept_trial f sp) ts)"
    unfolding out by (rule map2_all2[OF len]) (rule same_trial_returned)
  have b: "\<forall>r\<in>set out. \<not> fgt (stop_time r) (presentation.start_time (last sp)) \<and>
            (stop_time r \<noteq> None \<and> presentation.start_time (last sp) \<noteq> None \<longrightarrow>
               fge (presentation.start_time (last sp)) (stop_time r))"
  proof
    fix r assume r: "r \<in> set out"
    from map2_set[OF len r[unfolded out]] obtain t y
      where t: "t \<in> set (filter (kept_trial f sp) ts)"
        and "r = returned_row (patched_row sp t) y" by blast
    then have "stop_time r = stop_time t" by (simp add: returned_row_def)
    moreover from t have "\<not> fgt (stop_time t) (presentation.start_time (last sp))"
      by (simp add: kept_trial_def)
    ultimately show "\<not> fgt (stop_time r) (presentation.start_time (last sp)) \<and>
            (stop_time r \<noteq> None \<and> presentation.start_time (last sp) \<noteq> None \<longrightarrow>
               fge (presentation.start_time (last sp)) (stop_time r))"
      by (auto simp: fgt_def fge_def split: option.splits)
  qed
  from a b show ?thesis unfolding k ..
qed

text \<open>
  The last start time is 5: the trials that stop at 3 and at 5 are kept, the trial that
  stops at 7 is dropped, and so is the aborted trial.
\<close>

theorem get_trials_drops_uncovered_trials_witness:
  "get_trials True one_rate_per_trial
     [trial_at (Some 2) (Some 3) [] False, trial_at (Some 4) (Some 7) [] False,
      trial_at None (Some 4) [] True, trial_at (Some 4) (Some 5) [] False]
     (presentations_at [1, 3, 5])
     = Inr [returned_row ((trial_at (Some 2) (Some 3) [] False)\<lparr>change_time := Some 3\<rparr>) (),
            returned_row ((trial_at (Some 4) (Some 5) [] False)\<lparr>change_time := Some 5\<rparr>) ()]
   \<and> fge (presentation.start_time (last (presentations_at [1, 3, 5]))) (Some 3)
   \<and> fge (presentation.start_time (last (presentations_at [1, 3, 5]))) (Some 5)
   \<and> fgt (Some 7) (presentation.start_time (last (presentations_at [1, 3, 5])))"
proof -
  have h: "get_trials True one_rate_per_trial
     [trial_at (Some 2) (Some 3) [] False, trial_at (Some 4) (Some 7) [] False,
      trial_at None (Some 4) [] True, trial_at (Some 4) (Some 5) [] False]
     (presentations_at [1, 3, 5])
     = Inr [returned_row ((trial_at (Some 2) (Some 3) [] False)\<lparr>change_time := Some 3\<rparr>) (),
            returned_row ((trial_at (Some 4) (Some 5) [] False)\<lparr>change_time := Some 5\<rparr>) ()]"
    by (simp add: get_trials_eval)
  from get_trials_drops_uncovered_trials[OF h] show ?thesis using h
    by (simp add: returned_row_def trial_at_def presentations_at_def fgt_def)
qed

text \<open>
  Claim C4 as it is stated fails on a trial whose stop time is NaN: the comparison
  \<^verbatim>\<open>stop_time > last\<close> is false, so the mask keeps the trial, and its stop time is not
  less than or equal to the start time of the last stimulus presentation.
\<close>

theorem get_trials_keeps_nan_stop_time:
  "get_trials True one_rate_per_trial [trial_at (Some 2) None [] False]
     (presentations_at [1, 3])
     = Inr [returned_row ((trial_at (Some 2) None [] False)\<lparr>change_time := Some 3\<rparr>) ()]
   \<and> \<not> fge (presentation.start_time (last (presentations_at [1, 3])))
            (stop_time (returned_row ((trial_at (Some 2) None [] False)
                                        \<lparr>change_time := Some 3\<rparr>) ()))"
  by (simp add: get_trials_eval)

subsection \<open>The assertion\<close>

text \<open>
  Claim C9. In the table that reaches the assertion of lines 253-254 every change time
  that is not null is a start time of the stimulus presentations table, so the
  assertion holds for every pair of tables; \<^verbatim>\<open>get_trials\<close> raises AssertionError only
  when \<^verbatim>\<open>calculate_reward_rate\<close> raises it.
\<close>

theorem get_trials_assertion_holds:
  "(\<forall>trials3. timing_patch sp ts = Inr trials3 \<longrightarrow>
       list_all (change_time_asserted sp) trials3 \<and>
       (\<forall>t\<in>set trials3. \<forall>c. change_time t = Some c
          \<longrightarrow> Some c \<in> presentation.start_time ` set sp)) \<and>
   (get_trials f crr ts sp = Inl AssertionError
      \<longrightarrow> (\<exists>rl st. crr rl st = Inl AssertionError))"
proof (intro conjI allI impI)
  fix trials3 assume "timing_patch sp ts = Inr trials3"
  from timing_patch_Inr[OF this]
  have eq: "trials3 = map (patched_row sp)
              (filter (\<lambda>t. \<not> fgt (stop_time t) (presentation.start_time (last sp))) ts)"
    by simp
  show a: "list_all (change_time_asserted sp) trials3"
    unfolding eq by (simp add: list_all_iff change_time_asserted_patched)
  show "\<forall>t\<in>set trials3. \<forall>c. change_time t = Some c
          \<longrightarrow> Some c \<in> presentation.start_time ` set sp"
  proof (intro ballI allI impI)
    fix t c assume t: "t \<in> set trials3" and c: "change_time t = Some c"
    from a t have "change_time_asserted sp t" by (simp add: list_all_iff)
    with c obtain p where "p \<in> set sp" "presentation.start_time p = Some c"
      by (auto simp: change_time_asserted_def isnull_def list_ex_iff)
    then show "Some c \<in> presentation.start_time ` set sp" by (metis imageI)
  qed
next
  assume a: "get_trials f crr ts sp = Inl AssertionError"
  show "\<exists>rl st. crr rl st = Inl AssertionError"
  proof (cases "timing_patch sp ts")
    case (Inl e)
    with timing_patch_Inl[OF Inl] a show ?thesis by (simp add: get_trials_def)
  next
    case (Inr trials3)
    from timing_patch_Inr[OF Inr] have "list_all (change_time_asserted sp) trials3"
      by (simp add: list_all_iff change_time_asserted_patched)
    with a Inr have "derived_columns f crr trials3 = Inl AssertionError"
      by (simp add: get_trials_def)
    from derived_columns_Inl[OF this] show ?thesis by simp
  qed
qed

text \<open>
  On a table that is not in the order of its start times the patched change time 5 is
  still a start time of the table, and \<^verbatim>\<open>get_trials\<close> does not raise.
\<close>

theorem get_trials_assertion_holds_witness:
  "timing_patch (presentations_at [5, 3])
     [trial_at (Some 2) (Some 3) [Some 6] False, trial_at (Some 8) (Some 3) [] False]
     = Inr [(trial_at (Some 2) (Some 3) [Some 6] False)
              \<lparr>change_time := Some 5, response_latency := Some 1\<rparr>,
            (trial_at (Some 8) (Some 3) [] False)\<lparr>change_time := None\<rparr>]
   \<and> Some 5 \<in> presentation.start_time ` set (presentations_at [5, 3])
   \<and> get_trials True one_rate_per_trial
        [trial_at (Some 2) (Some 3) [Some 6] False, trial_at (Some 8) (Some 3) [] False]
        (presentations_at [5, 3]) \<noteq> Inl AssertionError"
proof -
  have h: "timing_patch (presentations_at [5, 3])
     [trial_at (Some 2) (Some 3) [Some 6] False, trial_at (Some 8) (Some 3) [] False]
     = Inr [(trial_at (Some 2) (Some 3) [Some 6] False)
              \<lparr>change_time := Some 5, response_latency := Some 1\<rparr>,
            (trial_at (Some 8) (Some 3) [] False)\<lparr>change_time := None\<rparr>]"
    by (simp add: get_trials_eval)
  have n: "\<not> (\<exists>rl st. one_rate_per_trial rl (st :: real option list) = Inl AssertionError)"
    by (simp add: one_rate_per_trial_def)
  from get_trials_assertion_holds[of "presentations_at [5, 3]"
      "[trial_at (Some 2) (Some 3) [Some 6] False, trial_at (Some 8) (Some 3) [] False]"
      True one_rate_per_trial] h n
  show ?thesis by (auto simp: trial_at_def)
qed

section \<open>Properties of \<^verbatim>\<open>get_stimulus_presentations\<close> and \<^verbatim>\<open>get_task_parameters\<close>\<close>

lemma filter_fst_distinct:
  "distinct (map fst cs) \<Longrightarrow> map_of cs l = Some d \<Longrightarrow> filter (\<lambda>c. fst c = l) cs = [(l, d)]"
proof (induction cs)
  case Nil then show ?case by simp
next
  case (Cons c cs)
  show ?case
  proof (cases "fst c = l")
    case True
    with Cons.prems have "c = (l, d)" by (cases c) auto
    moreover from True Cons.prems(1) have "l \<notin> fst ` set cs" by simp
    then have "filter (\<lambda>c. fst c = l) cs = []"
      by (force simp: filter_empty_conv)
    ultimately show ?thesis by simp
  next
    case False
    with Cons show ?thesis by (cases c) auto
  qed
qed

lemma select_columns_Inr:
  assumes "select_columns ls df = Inr s" "distinct (labels df)"
  shows "columns s = map (\<lambda>l. (l, the (map_of (columns df) l))) ls \<and> index_name s = index_name df
         \<and> set ls \<subseteq> set (labels df)"
proof -
  from assms(1) have sub: "set ls \<subseteq> set (labels df)"
    and s: "s = df\<lparr>columns := concat (map (\<lambda>l. filter (\<lambda>c. fst c = l) (columns df)) ls)\<rparr>"
    by (auto simp: select_columns_def filter_empty_conv split: list.splits)
  have "\<And>l. l \<in> set ls \<Longrightarrow> filter (\<lambda>c. fst c = l) (columns df) = [(l, the (map_of (columns df) l))]"
  proof -
    fix l assume "l \<in> set ls"
    with sub have "l \<in> fst ` set (columns df)" by (auto simp: labels_def)
    then obtain d where "map_of (columns df) l = Some d"
      by (metis domD dom_map_of_conv_image_fst)
    with filter_fst_distinct[OF assms(2)[unfolded labels_def] this] show "filter (\<lambda>c. fst c = l) (columns df) = [(l, the (map_of (columns df) l))]"
      by simp
  qed
  then have "concat (map (\<lambda>l. filter (\<lambda>c. fst c = l) (columns df)) ls) = map (\<lambda>l. (l, the (map_of (columns df) l))) ls"
    by (induction ls) auto
  with s sub show ?thesis by simp
qed

lemma labels_set_column: "l \<in> set (labels df) \<Longrightarrow> labels (set_column l d df) = labels df"
  by (auto simp: set_column_def labels_def)

lemma join_Inr:
  assumes "join align left right = Inr j" "distinct (labels left)" "distinct (labels right)"
  shows "columns j = columns left @ map (\<lambda>c. (fst c, align (snd c))) (columns right)
         \<and> distinct (labels j)"
proof -
  from assms(1) have dis: "\<forall>l\<in>set (labels left). l \<notin> set (labels right)"
    and j: "j = left\<lparr>columns := columns left @ map (\<lambda>c. (fst c, align (snd c))) (columns right)\<rparr>"
    by (auto simp: join_def list_ex_iff split: if_splits)
  have "labels j = labels left @ labels right" by (simp add: j labels_def o_def)
  moreover from dis have "set (labels left) \<inter> set (labels right) = {}" by blast
  ultimately have "distinct (labels j)" using assms(2,3) by simp
  with j show ?thesis by simp
qed

lemma drop_columns_Inr:
  assumes "drop_columns ls df = Inr df'"
  shows "columns df' = filter (\<lambda>c. fst c \<notin> set ls) (columns df) \<and> set ls \<subseteq> set (labels df)"
  using assms by (auto simp: drop_columns_def filter_empty_conv split: list.splits)

lemma distinct_labels_filter: "distinct (labels df) \<Longrightarrow> columns df' = filter P (columns df) \<Longrightarrow> distinct (labels df')"
  by (simp add: labels_def distinct_map_filter)

lemma get_stimulus_presentations_Inr:
  assumes "get_stimulus_presentations align broadcast (Inr nwb) (Inr ext) tp = Inr t"
  shows "\<exists>ext' j s2 v d. drop_columns [''omitted''] ext = Inr ext' \<and> join align nwb ext' = Inr j \<and>
           select_columns stimulus_presentations_columns j = Inr s2 \<and>
           stage_image_set tp = Inr v \<and> broadcast v = Inr d \<and>
           t = (set_column ''image_set'' d (rename_columns stimulus_presentations_renaming s2))\<lparr>index_name := Some ''flash_id''\<rparr>"
  using assms by (auto simp: get_stimulus_presentations_def Let_def split: sum.splits)

text \<open>
  Claim get_stimulus_presentations_reshaping. When the two tables have unique column labels (as the frames that the NWB
  reader and \<^verbatim>\<open>read_hdf\<close> build have) and \<^verbatim>\<open>get_stimulus_presentations\<close> returns, the
  returned table has exactly the eighteen listed columns in the listed order, with
  \<^verbatim>\<open>index\<close> renamed to \<^verbatim>\<open>absolute_flash_number\<close> and \<^verbatim>\<open>running_speed\<close> to
  \<^verbatim>\<open>mean_running_speed\<close>; the column \<^verbatim>\<open>omitted\<close> of the extended table is dropped before
  the join, so the returned column \<^verbatim>\<open>omitted\<close> is the one of the NWB table; and the index
  is named \<^verbatim>\<open>flash_id\<close>.
\<close>

theorem get_stimulus_presentations_reshaping:
  assumes "get_stimulus_presentations align broadcast (Inr nwb) (Inr ext) tp = Inr t"
    and "distinct (labels nwb)" and "distinct (labels ext)"
  shows "labels t =
           [''image_name'', ''image_index'', ''start_time'', ''stop_time'', ''omitted'', ''change'',
            ''duration'', ''licks'', ''rewards'', ''mean_running_speed'', ''absolute_flash_number'',
            ''time_from_last_lick'', ''time_from_last_reward'', ''time_from_last_change'',
            ''block_index'', ''image_block_repetition'', ''repeat_within_block'', ''image_set'']
         \<and> length (columns t) = 18
         \<and> index_name t = Some ''flash_id''
         \<and> (\<exists>ext' j. drop_columns [''omitted''] ext = Inr ext' \<and> ''omitted'' \<notin> set (labels ext')
               \<and> join align nwb ext' = Inr j
               \<and> map_of (columns t) ''absolute_flash_number'' = map_of (columns j) ''index''
               \<and> map_of (columns t) ''mean_running_speed'' = map_of (columns j) ''running_speed''
               \<and> map_of (columns t) ''omitted'' = map_of (columns nwb) ''omitted'')"
proof -
  from get_stimulus_presentations_Inr[OF assms(1)] obtain ext' j s2 v d where
    dr: "drop_columns [''omitted''] ext = Inr ext'" and jo: "join align nwb ext' = Inr j" and
    se: "select_columns stimulus_presentations_columns j = Inr s2" and
    t: "t = (set_column ''image_set'' d (rename_columns stimulus_presentations_renaming s2))\<lparr>index_name := Some ''flash_id''\<rparr>"
    by blast
  from drop_columns_Inr[OF dr] have e': "columns ext' = filter (\<lambda>c. fst c \<notin> set [''omitted'']) (columns ext)" by simp
  then have no: "''omitted'' \<notin> set (labels ext')" by (auto simp: labels_def)
  from distinct_labels_filter[OF assms(3) e'] have de: "distinct (labels ext')" .
  from join_Inr[OF jo assms(2) de] have cj: "columns j = columns nwb @ map (\<lambda>c. (fst c, align (snd c))) (columns ext')"
    and dj: "distinct (labels j)" by simp_all
  from select_columns_Inr[OF se dj] have cs: "columns s2 = map (\<lambda>l. (l, the (map_of (columns j) l))) stimulus_presentations_columns"
    and sub: "set stimulus_presentations_columns \<subseteq> set (labels j)" by simp_all
  have dom: "\<And>l. l \<in> set stimulus_presentations_columns \<Longrightarrow> \<exists>x. map_of (columns j) l = Some x"
  proof -
    fix l assume "l \<in> set stimulus_presentations_columns"
    with sub have "l \<in> fst ` set (columns j)" by (auto simp: labels_def)
    then show "\<exists>x. map_of (columns j) l = Some x" by (metis domD dom_map_of_conv_image_fst)
  qed
  have ct: "columns t =
    [(''image_name'', the (map_of (columns j) ''image_name'')),
     (''image_index'', the (map_of (columns j) ''image_index'')),
     (''start_time'', the (map_of (columns j) ''start_time'')),
     (''stop_time'', the (map_of (columns j) ''stop_time'')),
     (''omitted'', the (map_of (columns j) ''omitted'')),
     (''change'', the (map_of (columns j) ''change'')),
     (''duration'', the (map_of (columns j) ''duration'')),
     (''licks'', the (map_of (columns j) ''licks'')),
     (''rewards'', the (map_of (columns j) ''rewards'')),
     (''mean_running_speed'', the (map_of (columns j) ''running_speed'')),
     (''absolute_flash_number'', the (map_of (columns j) ''index'')),
     (''time_from_last_lick'', the (map_of (columns j) ''time_from_last_lick'')),
     (''time_from_last_reward'', the (map_of (columns j) ''time_from_last_reward'')),
     (''time_from_last_change'', the (map_of (columns j) ''time_from_last_change'')),
     (''block_index'', the (map_of (columns j) ''block_index'')),
     (''image_block_repetition'', the (map_of (columns j) ''image_block_repetition'')),
     (''repeat_within_block'', the (map_of (columns j) ''repeat_within_block'')),
     (''image_set'', d)]"
    unfolding t
    by (simp add: set_column_def rename_columns_def labels_def cs stimulus_presentations_columns_def
          stimulus_presentations_renaming_def)
  from dom[of "''index''"] obtain x1 where x1: "map_of (columns j) ''index'' = Some x1"
    by (auto simp: stimulus_presentations_columns_def)
  from dom[of "''running_speed''"] obtain x2 where x2: "map_of (columns j) ''running_speed'' = Some x2"
    by (auto simp: stimulus_presentations_columns_def)
  from dom[of "''omitted''"] obtain x3 where x3: "map_of (columns j) ''omitted'' = Some x3"
    by (auto simp: stimulus_presentations_columns_def)
  have "map_of (map (\<lambda>c. (fst c, align (snd c))) (columns ext')) ''omitted'' = None"
    using no by (simp add: map_of_eq_None_iff labels_def image_image)
  with x3 have x3': "map_of (columns nwb) ''omitted'' = Some x3"
    by (simp add: cj map_add_def split: option.splits)
  have a: "labels t = [''image_name'', ''image_index'', ''start_time'', ''stop_time'', ''omitted'', ''change'',
            ''duration'', ''licks'', ''rewards'', ''mean_running_speed'', ''absolute_flash_number'',
            ''time_from_last_lick'', ''time_from_last_reward'', ''time_from_last_change'',
            ''block_index'', ''image_block_repetition'', ''repeat_within_block'', ''image_set'']"
    by (simp add: labels_def ct)
  have b: "length (columns t) = 18" by (simp add: ct)
  have c: "index_name t = Some ''flash_id''" by (simp add: t)
  have d1: "map_of (columns t) ''absolute_flash_number'' = map_of (columns j) ''index''"
    by (simp add: ct x1)
  have d2: "map_of (columns t) ''mean_running_speed'' = map_of (columns j) ''running_speed''"
    by (simp add: ct x2)
  have d3: "map_of (columns t) ''omitted'' = map_of (columns nwb) ''omitted''"
    by (simp add: ct x3 x3')
  from a b c dr no jo d1 d2 d3 show ?thesis by blast
qed

text \<open>
  The NWB table has one more column, \<^verbatim>\<open>orientation\<close>, which is not returned; the stage
  \<^verbatim>\<open>OPHYS_6_images_B\<close> gives the image set \<^verbatim>\<open>B\<close>.
\<close>

theorem get_stimulus_presentations_reshaping_witness:
  "get_stimulus_presentations (\<lambda>d. d @ '' aligned'') column_of_letter
       (Inr nwb_presentations) (Inr extended_presentations) (Inr nwb_task_parameters)
     = Inr \<lparr> index_name = Some ''flash_id'',
             columns =
               [(''image_name'', ''nwb''), (''image_index'', ''nwb''), (''start_time'', ''nwb''),
                (''stop_time'', ''nwb''), (''omitted'', ''nwb''), (''change'', ''extended aligned''),
                (''duration'', ''nwb''), (''licks'', ''extended aligned''),
                (''rewards'', ''extended aligned''), (''mean_running_speed'', ''extended aligned''),
                (''absolute_flash_number'', ''nwb''),
                (''time_from_last_lick'', ''extended aligned''),
                (''time_from_last_reward'', ''extended aligned''),
                (''time_from_last_change'', ''extended aligned''),
                (''block_index'', ''extended aligned''),
                (''image_block_repetition'', ''extended aligned''),
                (''repeat_within_block'', ''extended aligned''), (''image_set'', ''B'')] \<rparr>
   \<and> distinct (labels nwb_presentations) \<and> distinct (labels extended_presentations)"
proof -
  have h: "get_stimulus_presentations (\<lambda>d. d @ '' aligned'') column_of_letter
       (Inr nwb_presentations) (Inr extended_presentations) (Inr nwb_task_parameters)
     = Inr \<lparr> index_name = Some ''flash_id'',
             columns =
               [(''image_name'', ''nwb''), (''image_index'', ''nwb''), (''start_time'', ''nwb''),
                (''stop_time'', ''nwb''), (''omitted'', ''nwb''), (''change'', ''extended aligned''),
                (''duration'', ''nwb''), (''licks'', ''extended aligned''),
                (''rewards'', ''extended aligned''), (''mean_running_speed'', ''extended aligned''),
                (''absolute_flash_number'', ''nwb''),
                (''time_from_last_lick'', ''extended aligned''),
                (''time_from_last_reward'', ''extended aligned''),
                (''time_from_last_change'', ''extended aligned''),
                (''block_index'', ''extended aligned''),
                (''image_block_repetition'', ''extended aligned''),
                (''repeat_within_block'', ''extended aligned''), (''image_set'', ''B'')] \<rparr>"
    by (simp add: get_stimulus_presentations_def drop_columns_def join_def select_columns_def
          rename_columns_def set_column_def labels_def stage_image_set_def
          get_task_parameters_def py_getitem_int_def column_of_letter_def
          stimulus_presentations_columns_def stimulus_presentations_renaming_def
          nwb_presentations_def extended_presentations_def nwb_task_parameters_def Let_def)
  have d1: "distinct (labels nwb_presentations)"
    by (simp add: labels_def nwb_presentations_def)
  have d2: "distinct (labels extended_presentations)"
    by (simp add: labels_def extended_presentations_def)
  from get_stimulus_presentations_reshaping[OF h d1 d2] h d1 d2 show ?thesis by simp
qed

text \<open>
  Claim get_task_parameters_overrides. \<^verbatim>\<open>get_task_parameters\<close> returns the task parameters of the superclass with
  \<^verbatim>\<open>omitted_flash_fraction\<close> set to 0.05 and \<^verbatim>\<open>stimulus_duration_sec\<close> set to 0.25, and
  every other entry as the superclass has it; an exception of the superclass is
  raised unchanged.
\<close>

theorem get_task_parameters_overrides:
  "get_task_parameters (Inl e) = Inl e \<and>
   (\<exists>tp'. get_task_parameters (Inr tp) = Inr tp' \<and>
      tp' ''omitted_flash_fraction'' = Some (PyFloat 0.05) \<and>
      tp' ''stimulus_duration_sec'' = Some (PyFloat 0.25) \<and>
      (\<forall>k. k \<noteq> ''omitted_flash_fraction'' \<and> k \<noteq> ''stimulus_duration_sec'' \<longrightarrow> tp' k = tp k))"
  by (simp add: get_task_parameters_def)

text \<open>The stimulus duration 6 of the file is overridden, the stage is kept.\<close>

theorem get_task_parameters_overrides_witness:
  "\<exists>tp'. get_task_parameters (Inr nwb_task_parameters) = Inr tp' \<and>
      tp' ''omitted_flash_fraction'' = Some (PyFloat 0.05) \<and>
      tp' ''stimulus_duration_sec'' = Some (PyFloat 0.25) \<and>
      tp' ''stage'' = Some (PyStr ''OPHYS_6_images_B'') \<and>
      nwb_task_parameters ''stimulus_duration_sec'' = Some (PyFloat 6) \<and>
      nwb_task_parameters ''omitted_flash_fraction'' = None"
proof -
  from get_task_parameters_overrides[of IndexError nwb_task_parameters] obtain tp' where
    a: "get_task_parameters (Inr nwb_task_parameters) = Inr tp'"
    and b: "tp' ''omitted_flash_fraction'' = Some (PyFloat 0.05)"
    and c: "tp' ''stimulus_duration_sec'' = Some (PyFloat 0.25)"
    and d: "\<forall>k. k \<noteq> ''omitted_flash_fraction'' \<and> k \<noteq> ''stimulus_duration_sec''
              \<longrightarrow> tp' k = nwb_task_parameters k" by blast
  from d have "tp' ''stage'' = nwb_task_parameters ''stage''" by simp
  then have e: "tp' ''stage'' = Some (PyStr ''OPHYS_6_images_B'')"
    by (simp add: nwb_task_parameters_def)
  have f: "nwb_task_parameters ''stimulus_duration_sec'' = Some (PyFloat 6)"
    and g: "nwb_task_parameters ''omitted_flash_fraction'' = None"
    by (simp_all add: nwb_task_parameters_def)
  from a b c e f g show ?thesis by blast
qed

section \<open>Properties of \<^verbatim>\<open>BehaviorProjectCache\<close>\<close>

text \<open>
  Claim file_errors_propagate. On a path with no file \<^verbatim>\<open>get_analysis_files_metadata\<close> and \<^verbatim>\<open>from_json\<close>
  raise FileNotFoundError for that path, and nothing else happens. In \<^verbatim>\<open>__init__\<close>,
  when the manifest is read and the two directories are given: without the key
  \<^verbatim>\<open>analysis_files_metadata_path\<close> the object is made with the metadata \<^verbatim>\<open>None\<close> and
  the warning is printed; with the key and no file at its path, the FileNotFoundError
  is raised.
\<close>

theorem file_errors_propagate:
  "(fs p = None \<longrightarrow>
      get_analysis_files_metadata fs json_load (PyStr p) = Inl (FileNotFoundError p) \<and>
      from_json fs parse_csv json_load (PyStr p) = (Inl (FileNotFoundError p), [])) \<and>
   (map_of kvs ''manifest_path'' = Some mp \<and> csv_reader fs parse_csv mp = Inr m0 \<and>
    select_columns manifest_columns m0 = Inr m \<and>
    map_of kvs ''nwb_base_dir'' = Some n \<and> map_of kvs ''analysis_files_base_dir'' = Some a \<longrightarrow>
      (''analysis_files_metadata_path'' \<notin> fst ` set kvs \<longrightarrow>
         init_cache fs parse_csv json_load (PyDict kvs) =
           (Inr \<lparr> manifest = m, nwb_base_dir = n, analysis_files_base_dir = a,
                  analysis_files_metadata = PyNone \<rparr>, [metadata_warning])) \<and>
      (map_of kvs ''analysis_files_metadata_path'' = Some (PyStr p) \<and> fs p = None \<longrightarrow>
         init_cache fs parse_csv json_load (PyDict kvs) = (Inl (FileNotFoundError p), [])))"
proof (intro conjI impI)
  assume "fs p = None"
  then show "get_analysis_files_metadata fs json_load (PyStr p) = Inl (FileNotFoundError p)"
    and "from_json fs parse_csv json_load (PyStr p) = (Inl (FileNotFoundError p), [])"
    by (simp_all add: get_analysis_files_metadata_def from_json_def py_open_def)
next
  assume h: "map_of kvs ''manifest_path'' = Some mp \<and> csv_reader fs parse_csv mp = Inr m0 \<and>
    select_columns manifest_columns m0 = Inr m \<and>
    map_of kvs ''nwb_base_dir'' = Some n \<and> map_of kvs ''analysis_files_base_dir'' = Some a"
  {
    assume "''analysis_files_metadata_path'' \<notin> fst ` set kvs"
    with h show "init_cache fs parse_csv json_load (PyDict kvs) =
           (Inr \<lparr> manifest = m, nwb_base_dir = n, analysis_files_base_dir = a,
                  analysis_files_metadata = PyNone \<rparr>, [metadata_warning])"
      by (simp add: init_cache_def py_getitem_def py_has_key_def)
  }
  {
    assume k: "map_of kvs ''analysis_files_metadata_path'' = Some (PyStr p) \<and> fs p = None"
    then have "''analysis_files_metadata_path'' \<in> fst ` set kvs"
      by (metis domI dom_map_of_conv_image_fst)
    with h k show "init_cache fs parse_csv json_load (PyDict kvs) = (Inl (FileNotFoundError p), [])"
      by (simp add: init_cache_def py_getitem_def py_has_key_def get_analysis_files_metadata_def py_open_def)
  }
qed

text \<open>
  A disk with the manifest and no file \<^verbatim>\<open>/data/missing.json\<close>: the error of the missing
  file, the object with no metadata and the warning, the error through \<^verbatim>\<open>__init__\<close>.
\<close>

theorem file_errors_propagate_witness:
  "files_on_disk ''/data/missing.json'' = None
   \<and> get_analysis_files_metadata files_on_disk json_load_on_disk (PyStr ''/data/missing.json'')
       = Inl (FileNotFoundError ''/data/missing.json'')
   \<and> from_json files_on_disk parse_csv_on_disk json_load_on_disk (PyStr ''/data/missing.json'')
       = (Inl (FileNotFoundError ''/data/missing.json''), [])
   \<and> init_cache files_on_disk parse_csv_on_disk json_load_on_disk
        (PyDict cache_paths_without_metadata)
       = (Inr \<lparr> manifest = manifest_table\<lparr>columns := butlast (columns manifest_table)\<rparr>,
                nwb_base_dir = PyStr ''/data/nwb_files'',
                analysis_files_base_dir = PyStr ''/data/analysis_files'',
                analysis_files_metadata = PyNone \<rparr>, [metadata_warning])
   \<and> init_cache files_on_disk parse_csv_on_disk json_load_on_disk
        (PyDict ((''analysis_files_metadata_path'', PyStr ''/data/missing.json'')
                   # cache_paths_without_metadata))
       = (Inl (FileNotFoundError ''/data/missing.json''), [])"
proof -
  have f: "files_on_disk ''/data/missing.json'' = None"
    by (simp add: files_on_disk_def)
  have r: "csv_reader files_on_disk parse_csv_on_disk (PyStr ''/data/manifest.csv'') = Inr manifest_table"
    by (simp add: csv_reader_def files_on_disk_def parse_csv_on_disk_def)
  have s: "select_columns manifest_columns manifest_table
             = Inr (manifest_table\<lparr>columns := butlast (columns manifest_table)\<rparr>)"
    by (simp add: select_columns_def manifest_columns_def manifest_table_def labels_def)
  note a = file_errors_propagate[of files_on_disk "''/data/missing.json''" json_load_on_disk parse_csv_on_disk
      cache_paths_without_metadata "PyStr ''/data/manifest.csv''" manifest_table
      "manifest_table\<lparr>columns := butlast (columns manifest_table)\<rparr>"
      "PyStr ''/data/nwb_files''" "PyStr ''/data/analysis_files''"]
  note b = file_errors_propagate[of files_on_disk "''/data/missing.json''" json_load_on_disk parse_csv_on_disk
      "(''analysis_files_metadata_path'', PyStr ''/data/missing.json'') # cache_paths_without_metadata"
      "PyStr ''/data/manifest.csv''" manifest_table
      "manifest_table\<lparr>columns := butlast (columns manifest_table)\<rparr>"
      "PyStr ''/data/nwb_files''" "PyStr ''/data/analysis_files''"]
  from a b f r s show ?thesis
    by (simp add: cache_paths_without_metadata_def)
qed

section \<open>Properties of \<^verbatim>\<open>ExtendedBehaviorSession\<close>\<close>

lemma get_attribute_frame:
  assumes "get_attribute s a w = (v, s')"
  shows "(v, property_of s' a) = lazy_get (property_of s a) w \<and>
         (\<forall>b. b \<noteq> a \<longrightarrow> property_of s' b = property_of s b)"
  using assms
  by (cases a) (auto simp: get_attribute_def property_of_def Let_def split: prod.splits attribute.splits)

lemma lazy_get_cases:
  "lazy_get p w =
     (case memoized p of Some v \<Rightarrow> (v, p)
      | None \<Rightarrow> (api_method p w, p\<lparr>memoized := Some (api_method p w), loads := loads p + 1\<rparr>))"
  by (simp add: lazy_get_def Let_def split: option.splits)

lemma get_attributes_general:
  "get_attributes s xs = (vs, s') \<Longrightarrow>
     vs = map (\<lambda>(a, w). case memoized (property_of s a) of Some v \<Rightarrow> v
                        | None \<Rightarrow> api_method (property_of s a) (the (map_of xs a))) xs \<and>
     (\<forall>a. property_of s' a = after_accesses (property_of s a) (map_of xs a))"
proof (induction xs arbitrary: s vs s')
  case Nil
  then show ?case by (auto simp: after_accesses_def split: option.splits)
next
  case (Cons x xs)
  obtain a w where x: "x = (a, w)" by (cases x)
  obtain v s1 where g: "get_attribute s a w = (v, s1)" by (cases "get_attribute s a w")
  obtain vs1 s2 where r: "get_attributes s1 xs = (vs1, s2)" by (cases "get_attributes s1 xs")
  from Cons.prems x g r have vs: "vs = v # vs1" and s': "s' = s2" by simp_all
  from get_attribute_frame[OF g] have h: "(v, property_of s1 a) = lazy_get (property_of s a) w"
    and fr: "\<And>b. b \<noteq> a \<Longrightarrow> property_of s1 b = property_of s b" by simp_all
  from Cons.IH[OF r] have
    ih1: "vs1 = map (\<lambda>(a, w). case memoized (property_of s1 a) of Some v \<Rightarrow> v
                        | None \<Rightarrow> api_method (property_of s1 a) (the (map_of xs a))) xs"
    and ih2: "\<And>b. property_of s2 b = after_accesses (property_of s1 b) (map_of xs b)" by simp_all
  have pa: "property_of s1 a = after_accesses (property_of s a) (Some w)"
    and va: "v = (case memoized (property_of s a) of Some v \<Rightarrow> v | None \<Rightarrow> api_method (property_of s a) w)"
    using h by (auto simp: lazy_get_cases after_accesses_def split: option.splits)
  have el: "\<And>b w'. (case memoized (property_of s1 b) of Some v \<Rightarrow> v
                        | None \<Rightarrow> api_method (property_of s1 b) (the (map_of xs b))) =
                 (case memoized (property_of s b) of Some v \<Rightarrow> v
                        | None \<Rightarrow> api_method (property_of s b) (the (map_of (x # xs) b)))"
  proof -
    fix b
    show "(case memoized (property_of s1 b) of Some v \<Rightarrow> v
                        | None \<Rightarrow> api_method (property_of s1 b) (the (map_of xs b))) =
                 (case memoized (property_of s b) of Some v \<Rightarrow> v
                        | None \<Rightarrow> api_method (property_of s b) (the (map_of (x # xs) b)))"
    proof (cases "b = a")
      case True
      then show ?thesis by (simp add: pa x after_accesses_def split: option.splits)
    next
      case False
      then show ?thesis unfolding fr[OF False] by (simp add: x split: option.splits)
    qed
  qed
  have "vs1 = map (\<lambda>(a, w). case memoized (property_of s a) of Some v \<Rightarrow> v
                        | None \<Rightarrow> api_method (property_of s a) (the (map_of (x # xs) a))) xs"
    unfolding ih1 by (simp add: el)
  with vs va have A: "vs = map (\<lambda>(a, w). case memoized (property_of s a) of Some v \<Rightarrow> v
                        | None \<Rightarrow> api_method (property_of s a) (the (map_of (x # xs) a))) (x # xs)"
    by (simp add: x split: option.splits)
  have B: "\<forall>b. property_of s' b = after_accesses (property_of s b) (map_of (x # xs) b)"
  proof
    fix b
    show "property_of s' b = after_accesses (property_of s b) (map_of (x # xs) b)"
    proof (cases "b = a")
      case True
      then show ?thesis unfolding s' ih2
        by (simp add: pa x after_accesses_def split: option.splits)
    next
      case False
      then show ?thesis unfolding s' ih2 by (simp add: fr x)
    qed
  qed
  from A B show ?case by blast
qed

lemma property_of_init:
  "property_of (init_session api) a = LazyProperty (loader_of api a)"
  by (cases a) (simp_all add: property_of_def init_session_def loader_of_def)

text \<open>
  Claim lazy_properties_memoized. After \<^verbatim>\<open>__init__\<close> no loader has been called and nothing is memoized. After
  any run of accesses, every access to an attribute has returned the value that the
  loader of the attribute gave at the first access to it, and the loader of an
  attribute has been called once when the attribute was accessed and never otherwise.
\<close>

theorem lazy_properties_memoized:
  "(\<forall>a. memoized (property_of (init_session api) a) = None \<and>
        loads (property_of (init_session api) a) = 0) \<and>
   (\<forall>xs vs s. get_attributes (init_session api) xs = (vs, s) \<longrightarrow>
      vs = map (\<lambda>(a, w). loader_of api a (the (map_of xs a))) xs \<and>
      (\<forall>a. loads (property_of s a) = (if a \<in> fst ` set xs then 1 else 0)))"
proof (intro conjI allI impI)
  fix a
  show "memoized (property_of (init_session api) a) = None"
    and "loads (property_of (init_session api) a) = 0"
    by (simp_all add: property_of_init LazyProperty_def)
next
  fix xs vs s assume g: "get_attributes (init_session api) xs = (vs, s)"
  from get_attributes_general[OF g]
  show "vs = map (\<lambda>(a, w). loader_of api a (the (map_of xs a))) xs"
    by (simp add: property_of_init LazyProperty_def)
  fix a
  from get_attributes_general[OF g]
  have "property_of s a = after_accesses (LazyProperty (loader_of api a)) (map_of xs a)"
    by (simp add: property_of_init)
  then show "loads (property_of s a) = (if a \<in> fst ` set xs then 1 else 0)"
    by (cases "map_of xs a")
       (auto simp: after_accesses_def LazyProperty_def map_of_eq_None_iff
             dest: map_of_SomeD intro: rev_image_eqI)
qed

text \<open>
  Two accesses to \<^verbatim>\<open>trial_response_df\<close> and two to \<^verbatim>\<open>image_index\<close>, at the states 1 to
  4 of the files: the second access returns the value loaded at the first one, and
  \<^verbatim>\<open>flash_response_df\<close> is never loaded.
\<close>

theorem lazy_properties_memoized_witness:
  "get_attributes (init_session api_on_disk)
     [(Trial_response_df, 1), (Image_index, 2), (Trial_response_df, 3), (Image_index, 4)]
     = ([(''trial_response_df'', 1), (''image_index'', 2), (''trial_response_df'', 1),
         (''image_index'', 2)],
        \<lparr> trial_response_df = \<lparr> api_method = get_trial_response_df api_on_disk,
                                 memoized = Some (''trial_response_df'', 1), loads = 1 \<rparr>,
          flash_response_df = \<lparr> api_method = get_flash_response_df api_on_disk,
                                 memoized = None, loads = 0 \<rparr>,
          image_index = \<lparr> api_method = get_image_index api_on_disk,
                           memoized = Some (''image_index'', 2), loads = 1 \<rparr> \<rparr>)"
proof -
  have h: "get_attributes (init_session api_on_disk)
     [(Trial_response_df, 1), (Image_index, 2), (Trial_response_df, 3), (Image_index, 4)]
     = ([(''trial_response_df'', 1), (''image_index'', 2), (''trial_response_df'', 1),
         (''image_index'', 2)],
        \<lparr> trial_response_df = \<lparr> api_method = get_trial_response_df api_on_disk,
                                 memoized = Some (''trial_response_df'', 1), loads = 1 \<rparr>,
          flash_response_df = \<lparr> api_method = get_flash_response_df api_on_disk,
                                 memoized = None, loads = 0 \<rparr>,
          image_index = \<lparr> api_method = get_image_index api_on_disk,
                           memoized = Some (''image_index'', 2), loads = 1 \<rparr> \<rparr>)"
    by (simp add: init_session_def LazyProperty_def get_attribute_def lazy_get_def Let_def
          api_on_disk_def)
  from lazy_properties_memoized[of api_on_disk] h show ?thesis by simp
qed

end
